theory Spec2Isabelle
  imports Complex_Main
begin

section \<open>Values, records and exceptions\<close>

text \<open>
  The request body is the Python object that the JSON parser hands to the handlers: a
  dictionary whose keys are strings and whose values are JSON scalars. \<open>PBool\<close> is kept
  apart from \<open>PInt\<close> because the two print differently, although Python's \<open>bool\<close> is a
  subclass of \<open>int\<close>. A float is the real number it stands for; the values
  \<open>NaN\<close> and \<open>Infinity\<close>, which the parser also reads, are left out.
\<close>

datatype pyval = PNone | PBool bool | PInt int | PFloat real | PStr string

text \<open>
  A dictionary keeps its insertion order, so it is an association list; the first entry
  for a key is the entry of that key (a Python dictionary has one entry per key).
\<close>

type_synonym pydict = "(string \<times> pyval) list"

definition has_key :: "pydict \<Rightarrow> string \<Rightarrow> bool" where
  "has_key data k = (map_of data k \<noteq> None)"

text \<open>
  Exceptions below \<open>Exception\<close>, each with the text that \<open>str(e)\<close> gives. \<open>ValueError\<close>
  stands for that class and its subclasses, \<open>OtherException\<close> for every class that is
  neither a \<open>ValueError\<close> nor one of the classes named here.
\<close>

datatype pyexn =
    ValueError string
  | AttributeError string
  | KeyError string
  | TypeError string
  | OverflowError string
  | OtherException string

fun exn_str :: "pyexn \<Rightarrow> string" where
  "exn_str (ValueError m) = m"
| "exn_str (AttributeError m) = m"
| "exn_str (KeyError m) = m"
| "exn_str (TypeError m) = m"
| "exn_str (OverflowError m) = m"
| "exn_str (OtherException m) = m"

text \<open>
  \<open>repr\<close> of a string, as it stands in the text of a \<open>KeyError\<close>: between single quotes,
  or between double quotes when the string holds a single quote and no double quote; the
  quote and the backslash are escaped, tab, newline and carriage return are written
  \<open>\t\<close>, \<open>\n\<close>, \<open>\r\<close>, and the other control characters \<open>\xNN\<close>. Bytes above
  \<open>0x7f\<close> belong to printable characters and stay.
\<close>

definition hex_digit :: "nat \<Rightarrow> char" where
  "hex_digit n = ''0123456789abcdef'' ! n"

definition repr_char :: "char \<Rightarrow> char \<Rightarrow> string" where
  "repr_char quote c =
     (if c = quote \<or> c = CHR 0x5C then [CHR 0x5C, c]
      else if c = CHR 0x09 then [CHR 0x5C, CHR ''t'']
      else if c = CHR 0x0A then [CHR 0x5C, CHR ''n'']
      else if c = CHR 0x0D then [CHR 0x5C, CHR ''r'']
      else if (of_char c :: nat) < 32 \<or> c = CHR 0x7F
        then [CHR 0x5C, CHR ''x'', hex_digit (of_char c div 16), hex_digit (of_char c mod 16)]
      else [c])"

definition py_repr :: "string \<Rightarrow> string" where
  "py_repr s =
     (let quote = (if CHR 0x27 \<in> set s \<and> CHR 0x22 \<notin> set s then CHR 0x22 else CHR 0x27)
      in [quote] @ concat (map (repr_char quote) s) @ [quote])"

section \<open>The feature schema\<close>

definition FEATURES :: "string list" where
  "FEATURES =
     [''channel_name'', ''category'', ''Sub-category'', ''Item_price'',
      ''connected_handling_time'', ''response_delay'', ''survey_delay'',
      ''sentiment_score'', ''Agent_name'', ''Agent Shift'', ''Tenure Bucket'']"

definition numeric_features :: "string list" where
  "numeric_features =
     [''Item_price'', ''connected_handling_time'', ''response_delay'',
      ''survey_delay'', ''sentiment_score'']"

section \<open>validate_input\<close>

text \<open>\<open>isinstance(v, (int, float))\<close>: true of a \<open>bool\<close> as well, a subclass of \<open>int\<close>.\<close>

fun isinstance_int_float :: "pyval \<Rightarrow> bool" where
  "isinstance_int_float (PInt i) = True"
| "isinstance_int_float (PFloat x) = True"
| "isinstance_int_float (PBool b) = True"
| "isinstance_int_float (PStr s) = False"
| "isinstance_int_float PNone = False"

definition missing_message :: "string \<Rightarrow> string" where
  "missing_message feature = ''Missing required feature: '' @ feature"

definition numeric_message :: "string \<Rightarrow> string" where
  "numeric_message feature = ''Feature '' @ feature @ '' must be numeric''"

text \<open>The first loop of \<open>validate_input\<close>, with the list \<open>errors\<close> it appends to.\<close>

fun check_required :: "pydict \<Rightarrow> string list \<Rightarrow> string list \<Rightarrow> string list" where
  "check_required data [] errors = errors"
| "check_required data (feature # rest) errors =
     check_required data rest
       (if \<not> has_key data feature then errors @ [missing_message feature] else errors)"

text \<open>The second loop: \<open>feature in data and not isinstance(data[feature], (int, float))\<close>.\<close>

fun check_numeric :: "pydict \<Rightarrow> string list \<Rightarrow> string list \<Rightarrow> string list" where
  "check_numeric data [] errors = errors"
| "check_numeric data (feature # rest) errors =
     check_numeric data rest
       (case map_of data feature of
          None \<Rightarrow> errors
        | Some v \<Rightarrow>
            if \<not> isinstance_int_float v then errors @ [numeric_message feature] else errors)"

definition validate_input :: "pydict \<Rightarrow> string list" where
  "validate_input data = check_numeric data numeric_features (check_required data FEATURES [])"

text \<open>A numeric-designated feature that is present and fails the type check.\<close>

definition not_numeric :: "pydict \<Rightarrow> string \<Rightarrow> bool" where
  "not_numeric data feature =
     (case map_of data feature of None \<Rightarrow> False | Some v \<Rightarrow> \<not> isinstance_int_float v)"

section \<open>Label encoders\<close>

text \<open>
  The encoder bundle is loaded from a file that is not part of the sources, so it is an
  argument of every function that reads it. An encoder object carries its vocabulary in
  the attribute \<open>classes_\<close> (the field \<open>enc_classes\<close>), an array of strings whose dtype is
  either \<open>object\<close> (Python strings, as fitted on a column of a frame) or a fixed-width
  unicode dtype. An encoder that was never fitted has no such attribute (\<open>None\<close>), and
  reading it raises \<open>AttributeError\<close>. Each column has an encoder object of its own. The
  bundle is a dictionary: an association list in iteration order, one entry per column.
\<close>

datatype classes_dtype = ObjectDtype | UnicodeDtype

record encoder =
  enc_classes :: "string list option"
  enc_dtype :: classes_dtype

type_synonym encoders = "(string \<times> encoder) list"

definition no_classes_message :: string where
  "no_classes_message =
     [CHR 0x27] @ ''LabelEncoder'' @ [CHR 0x27] @ '' object has no attribute '' @
     [CHR 0x27] @ ''classes_'' @ [CHR 0x27]"

text \<open>
  A string that becomes an array of unicode dtype is read back without its trailing NUL
  characters, which the array cannot tell from padding.
\<close>

definition strip_nul :: "string \<Rightarrow> string" where
  "strip_nul s = rev (dropWhile (\<lambda>c. c = CHR 0x00) (rev s))"

text \<open>
  Modelled from the spec: the encoder's forward mapping from a category string to its
  dense integer code (\<open>transform\<close> of the label encoder, library code outside the
  sources). The code of a class is its position in \<open>classes_\<close>, read from the table
  \<open>{val: i for i, val in enumerate(classes_)}\<close> (a later duplicate overwrites an earlier
  one); a label that is not a class raises \<open>ValueError\<close> with the \<open>repr\<close> of the label.
\<close>

fun class_code :: "string list \<Rightarrow> int \<Rightarrow> string \<Rightarrow> int option" where
  "class_code [] i y = None"
| "class_code (c # cs) i y =
     (case class_code cs (i + 1) y of
        Some j \<Rightarrow> Some j
      | None \<Rightarrow> if c = y then Some i else None)"

definition transform :: "string list \<Rightarrow> string \<Rightarrow> pyexn + int" where
  "transform classes y =
     (case class_code classes 0 y of
        None \<Rightarrow> Inl (ValueError (''y contains previously unseen labels: '' @ py_repr y))
      | Some code \<Rightarrow> Inr code)"

text \<open>
  Before the lookup, \<open>transform\<close> converts its argument to the dtype of \<open>classes_\<close>: a
  unicode dtype drops the trailing NUL characters, \<open>object\<close> keeps the string as it is.
\<close>

fun as_classes_dtype :: "classes_dtype \<Rightarrow> string \<Rightarrow> string" where
  "as_classes_dtype ObjectDtype y = y"
| "as_classes_dtype UnicodeDtype y = strip_nul y"

section \<open>preprocess_input\<close>

text \<open>
  \<open>pd.DataFrame([data])\<close> is a frame of one row: its columns in order, each with the
  cell of that row. \<open>df[col] = v\<close> overwrites the column where it stands, or adds it
  after the last column.
\<close>

type_synonym frame = pydict

fun set_column :: "string \<Rightarrow> pyval \<Rightarrow> frame \<Rightarrow> frame" where
  "set_column col v [] = [(col, v)]"
| "set_column col v ((k, x) # df) =
     (if k = col then (k, v) # df else (k, x) # set_column col v df)"

text \<open>
  \<open>lambda x: x if x in le.classes_ else 'Unknown'\<close>. The test \<open>x in le.classes_\<close> turns
  \<open>x\<close> into an array first, so a string is compared without its trailing NUL characters,
  while the value kept is \<open>x\<close> itself. The classes are strings, and a value of another
  type is equal to none of them.
\<close>

fun handle_unseen :: "string list \<Rightarrow> pyval \<Rightarrow> string" where
  "handle_unseen classes (PStr s) = (if strip_nul s \<in> set classes then s else ''Unknown'')"
| "handle_unseen classes PNone = ''Unknown''"
| "handle_unseen classes (PBool b) = ''Unknown''"
| "handle_unseen classes (PInt i) = ''Unknown''"
| "handle_unseen classes (PFloat x) = ''Unknown''"

text \<open>\<open>if 'Unknown' not in le.classes_: le.classes_ = np.append(le.classes_, 'Unknown')\<close>\<close>

definition add_unknown :: "string list \<Rightarrow> string list" where
  "add_unknown classes =
     (if ''Unknown'' \<notin> set classes then classes @ [''Unknown''] else classes)"

text \<open>
  The loop over the encoder bundle. It returns the bundle as the loop leaves it, also
  when an exception ends the loop early, and the frame or the exception.
\<close>

fun encode_columns :: "encoders \<Rightarrow> frame \<Rightarrow> encoders \<times> (pyexn + frame)" where
  "encode_columns [] df = ([], Inr df)"
| "encode_columns ((col, le) # rest) df =
     (case map_of df col of
        None \<Rightarrow>
          (case encode_columns rest df of (rest', r) \<Rightarrow> ((col, le) # rest', r))
      | Some x \<Rightarrow>
          (case enc_classes le of
             None \<Rightarrow> ((col, le) # rest, Inl (AttributeError no_classes_message))
           | Some classes \<Rightarrow>
               (case transform (add_unknown classes)
                       (as_classes_dtype (enc_dtype le) (handle_unseen classes x)) of
                  Inl e \<Rightarrow> ((col, le\<lparr>enc_classes := Some (add_unknown classes)\<rparr>) # rest, Inl e)
                | Inr code \<Rightarrow>
                    (case encode_columns rest (set_column col (PInt code) df) of
                       (rest', r) \<Rightarrow>
                         ((col, le\<lparr>enc_classes := Some (add_unknown classes)\<rparr>) # rest', r)))))"

text \<open>\<open>for feature in FEATURES: if feature not in df.columns: df[feature] = 0\<close>\<close>

fun fill_missing :: "string list \<Rightarrow> frame \<Rightarrow> frame" where
  "fill_missing [] df = df"
| "fill_missing (feature # rest) df =
     fill_missing rest (if \<not> has_key df feature then set_column feature (PInt 0) df else df)"

text \<open>
  \<open>df[FEATURES]\<close>: the cells of the listed columns, in the order listed; a column that
  the frame lacks raises \<open>KeyError\<close>.
\<close>

fun select_columns :: "string list \<Rightarrow> frame \<Rightarrow> pyexn + pyval list" where
  "select_columns [] df = Inr []"
| "select_columns (col # cols) df =
     (case map_of df col of
        None \<Rightarrow> Inl (KeyError col)
      | Some v \<Rightarrow>
          (case select_columns cols df of
             Inl e \<Rightarrow> Inl e
           | Inr vs \<Rightarrow> Inr (v # vs)))"

text \<open>
  The dtype of a column of the one-row frame: that of its cell. An integer outside the
  64-bit ranges stays a Python object, as do strings and \<open>None\<close>; the codes that
  \<open>transform\<close> returns and the 0 of a filled column are \<open>int64\<close>.
\<close>

datatype column_dtype = BoolColumn | Int64Column | UInt64Column | Float64Column | ObjectColumn

fun dtype_of :: "pyval \<Rightarrow> column_dtype" where
  "dtype_of PNone = ObjectColumn"
| "dtype_of (PBool b) = BoolColumn"
| "dtype_of (PInt i) =
     (if - (2 ^ 63) \<le> i \<and> i < 2 ^ 63 then Int64Column
      else if 2 ^ 63 \<le> i \<and> i < 2 ^ 64 then UInt64Column
      else ObjectColumn)"
| "dtype_of (PFloat x) = Float64Column"
| "dtype_of (PStr s) = ObjectColumn"

text \<open>
  The dtype of the array that \<open>.values\<close> builds from columns of these dtypes: their own
  when they all agree; \<open>object\<close> when one of them is \<open>object\<close>, or when booleans stand
  beside numbers; \<open>float64\<close> for the other mixtures of numbers.
\<close>

fun find_common_type :: "column_dtype list \<Rightarrow> column_dtype" where
  "find_common_type [] = ObjectColumn"
| "find_common_type (first # rest) =
     (if list_all (\<lambda>t. t = first) rest then first
      else if ObjectColumn \<in> set (first # rest) then ObjectColumn
      else if BoolColumn \<in> set (first # rest) then ObjectColumn
      else Float64Column)"

text \<open>
  An integer as a \<open>float64\<close>: itself below \<open>2 ^ 53\<close>, and otherwise rounded to 53
  significant bits, a tie going to the even neighbour.
\<close>

fun bit_length :: "nat \<Rightarrow> nat" where
  "bit_length n = (if n = 0 then 0 else Suc (bit_length (n div 2)))"

definition round53 :: "nat \<Rightarrow> nat" where
  "round53 n =
     (if n < 2 ^ 53 then n
      else
        let e = bit_length n - 53;
            q = n div 2 ^ e;
            r = n mod 2 ^ e
        in (if 2 ^ (e - 1) < r \<or> (r = 2 ^ (e - 1) \<and> odd q) then q + 1 else q) * 2 ^ e)"

definition float64_of_int :: "int \<Rightarrow> real" where
  "float64_of_int i =
     (if i < 0 then - real (round53 (nat (- i))) else real (round53 (nat i)))"

text \<open>A cell in an array of the given dtype.\<close>

fun astype :: "column_dtype \<Rightarrow> pyval \<Rightarrow> pyval" where
  "astype Float64Column (PInt i) = PFloat (float64_of_int i)"
| "astype Float64Column (PBool b) = PFloat (if b then 1 else 0)"
| "astype dtype v = v"

text \<open>\<open>.values\<close> of a frame of one row: an array of one row, of the common dtype.\<close>

definition df_values :: "pyval list \<Rightarrow> pyval list list" where
  "df_values row = [map (astype (find_common_type (map dtype_of row))) row]"

text \<open>The body of the \<open>try\<close> block.\<close>

definition preprocess_body :: "encoders \<Rightarrow> pydict \<Rightarrow> encoders \<times> (pyexn + pyval list list)" where
  "preprocess_body label_encoders data =
     (case encode_columns label_encoders data of
        (les, Inl e) \<Rightarrow> (les, Inl e)
      | (les, Inr df) \<Rightarrow>
          (case select_columns FEATURES (fill_missing FEATURES df) of
             Inl e \<Rightarrow> (les, Inl e)
           | Inr row \<Rightarrow> (les, Inr (df_values row))))"

text \<open>\<open>except Exception as e: raise ValueError(f"Preprocessing failed: {str(e)}")\<close>\<close>

definition preprocess_input :: "encoders \<Rightarrow> pydict \<Rightarrow> encoders \<times> (pyexn + pyval list list)" where
  "preprocess_input label_encoders data =
     (case preprocess_body label_encoders data of
        (les, Inl e) \<Rightarrow> (les, Inl (ValueError (''Preprocessing failed: '' @ exn_str e)))
      | (les, Inr processed) \<Rightarrow> (les, Inr processed))"

section \<open>predict\<close>

text \<open>
  The classifier is the other loaded artifact: \<open>model.predict(processed)[0]\<close> and
  \<open>model.predict_proba(processed)[0,1]\<close>, each of which returns a scalar or raises. The
  request is read through \<open>is_json\<close> and \<open>json\<close>; the time of the response is an
  argument. So are the readings of a string by the built-in \<open>int\<close> and \<open>float\<close>, which
  give no number where the built-in raises \<open>ValueError\<close>.
\<close>

record classifier =
  model_predict :: "pyval list list \<Rightarrow> pyexn + pyval"
  model_predict_proba :: "pyval list list \<Rightarrow> pyexn + pyval"

record builtins =
  int_of_str :: "string \<Rightarrow> int option"
  float_of_str :: "string \<Rightarrow> real option"

record request =
  is_json :: bool
  json :: pydict

datatype body =
    ErrorBody string
  | ValidationBody string "string list"
  | PredictionBody int real string string

type_synonym response = "body \<times> nat"

text \<open>An integer too large for a \<open>float64\<close>: it would round to \<open>2 ^ 1024\<close> or beyond.\<close>

definition too_large_for_float :: "int \<Rightarrow> bool" where
  "too_large_for_float i = (2 ^ 1024 - 2 ^ 970 \<le> \<bar>i\<bar>)"

text \<open>
  The format \<open>{pred_prob:.2f}\<close> of the log line; only whether it raises is kept. A
  string has no format code \<open>f\<close>, \<open>None\<close> takes no format at all.
\<close>

fun format_2f :: "pyval \<Rightarrow> pyexn + unit" where
  "format_2f (PFloat x) = Inr ()"
| "format_2f (PInt i) =
     (if too_large_for_float i then Inl (OverflowError ''int too large to convert to float'')
      else Inr ())"
| "format_2f (PBool b) = Inr ()"
| "format_2f (PStr s) =
     Inl (ValueError (''Unknown format code '' @ [CHR 0x27] @ ''f'' @ [CHR 0x27] @
        '' for object of type '' @ [CHR 0x27] @ ''str'' @ [CHR 0x27]))"
| "format_2f PNone =
     Inl (TypeError ''unsupported format string passed to NoneType.__format__'')"

text \<open>\<open>int(pred)\<close>: a float is cut towards zero.\<close>

fun py_int :: "builtins \<Rightarrow> pyval \<Rightarrow> pyexn + int" where
  "py_int py (PInt i) = Inr i"
| "py_int py (PBool b) = Inr (if b then 1 else 0)"
| "py_int py (PFloat x) = Inr (if 0 \<le> x then \<lfloor>x\<rfloor> else \<lceil>x\<rceil>)"
| "py_int py (PStr s) =
     (case int_of_str py s of
        None \<Rightarrow> Inl (ValueError (''invalid literal for int() with base 10: '' @ py_repr s))
      | Some i \<Rightarrow> Inr i)"
| "py_int py PNone =
     Inl (TypeError (''int() argument must be a string, a bytes-like object or a real '' @
        ''number, not '' @ [CHR 0x27] @ ''NoneType'' @ [CHR 0x27]))"

text \<open>\<open>float(pred_prob)\<close>\<close>

fun py_float :: "builtins \<Rightarrow> pyval \<Rightarrow> pyexn + real" where
  "py_float py (PFloat x) = Inr x"
| "py_float py (PInt i) =
     (if too_large_for_float i then Inl (OverflowError ''int too large to convert to float'')
      else Inr (float64_of_int i))"
| "py_float py (PBool b) = Inr (if b then 1 else 0)"
| "py_float py (PStr s) =
     (case float_of_str py s of
        None \<Rightarrow> Inl (ValueError (''could not convert string to float: '' @ py_repr s))
      | Some x \<Rightarrow> Inr x)"
| "py_float py PNone =
     Inl (TypeError (''float() argument must be a string or a real number, not '' @
        [CHR 0x27] @ ''NoneType'' @ [CHR 0x27]))"

text \<open>\<open>pred == 1\<close>\<close>

fun equals_one :: "pyval \<Rightarrow> bool" where
  "equals_one (PInt i) = (i = 1)"
| "equals_one (PBool b) = b"
| "equals_one (PFloat x) = (x = 1)"
| "equals_one (PStr s) = False"
| "equals_one PNone = False"

text \<open>
  Lines 141 to 152 of \<open>predict\<close>: the two calls of the classifier, the log line, and the
  body of the response with \<open>int(pred)\<close>, \<open>float(pred_prob)\<close> and the label, in the order
  in which the source evaluates them.
\<close>

definition model_response ::
  "builtins \<Rightarrow> classifier \<Rightarrow> string \<Rightarrow> pyval list list \<Rightarrow> pyexn + body" where
  "model_response py model now processed =
     (case model_predict model processed of
        Inl e \<Rightarrow> Inl e
      | Inr pred \<Rightarrow>
          (case model_predict_proba model processed of
             Inl e \<Rightarrow> Inl e
           | Inr pred_prob \<Rightarrow>
               (case format_2f pred_prob of
                  Inl e \<Rightarrow> Inl e
                | Inr logged \<Rightarrow>
                    (case py_int py pred of
                       Inl e \<Rightarrow> Inl e
                     | Inr prediction \<Rightarrow>
                         (case py_float py pred_prob of
                            Inl e \<Rightarrow> Inl e
                          | Inr probability \<Rightarrow>
                              Inr (PredictionBody prediction probability
                                     (if equals_one pred then ''High CSAT'' else ''Low CSAT'')
                                     now))))))"

text \<open>The two \<open>except\<close> clauses of \<open>predict\<close>, in their order.\<close>

fun predict_except :: "pyexn \<Rightarrow> response" where
  "predict_except (ValueError m) = (ErrorBody m, 400)"
| "predict_except (AttributeError m) = (ErrorBody ''Internal server error'', 500)"
| "predict_except (KeyError m) = (ErrorBody ''Internal server error'', 500)"
| "predict_except (TypeError m) = (ErrorBody ''Internal server error'', 500)"
| "predict_except (OverflowError m) = (ErrorBody ''Internal server error'', 500)"
| "predict_except (OtherException m) = (ErrorBody ''Internal server error'', 500)"

definition predict ::
  "builtins \<Rightarrow> classifier \<Rightarrow> encoders \<Rightarrow> string \<Rightarrow> request \<Rightarrow> encoders \<times> response" where
  "predict py model label_encoders now req =
     (if \<not> is_json req then (label_encoders, (ErrorBody ''Request must be JSON'', 400))
      else
        let input_data = json req;
            validation_errors = validate_input input_data
        in if validation_errors \<noteq> []
           then (label_encoders, (ValidationBody ''Validation failed'' validation_errors, 400))
           else
             (case preprocess_input label_encoders input_data of
                (les, Inl e) \<Rightarrow> (les, predict_except e)
              | (les, Inr processed) \<Rightarrow>
                  (case model_response py model now processed of
                     Inl e \<Rightarrow> (les, predict_except e)
                   | Inr answer \<Rightarrow> (les, (answer, 200)))))"

section \<open>Notions used in the statements\<close>

text \<open>Every encoder of the bundle has been fitted: it has its \<open>classes_\<close>.\<close>

definition fitted :: "encoders \<Rightarrow> bool" where
  "fitted les = (\<forall>entry \<in> set les. enc_classes (snd entry) \<noteq> None)"

text \<open>A value that is not a string ending in a NUL character.\<close>

fun plain :: "pyval \<Rightarrow> bool" where
  "plain (PStr s) = (strip_nul s = s)"
| "plain PNone = True"
| "plain (PBool b) = True"
| "plain (PInt i) = True"
| "plain (PFloat x) = True"

definition plain_record :: "pydict \<Rightarrow> bool" where
  "plain_record data = (\<forall>entry \<in> set data. plain (snd entry))"

text \<open>The cell of a column of the frame, and 0 for a column that the frame lacks.\<close>

definition column_value :: "frame \<Rightarrow> string \<Rightarrow> pyval" where
  "column_value df col = (case map_of df col of None \<Rightarrow> PInt 0 | Some v \<Rightarrow> v)"

text \<open>
  An encoder entry after a call that returns: where the record has the entry's column,
  the classes have passed through \<open>add_unknown\<close>; otherwise the entry is as it was.
\<close>

definition after_call :: "pydict \<Rightarrow> string \<times> encoder \<Rightarrow> string \<times> encoder" where
  "after_call data entry =
     (if has_key data (fst entry)
      then (fst entry,
            (snd entry)\<lparr>enc_classes := map_option add_unknown (enc_classes (snd entry))\<rparr>)
      else entry)"

text \<open>
  One entry of the bundle before and after a call: the same column, and the encoder
  either as it was or with \<open>''Unknown''\<close>, which was not a class, added after its last
  class.
\<close>

definition append_only :: "string \<times> encoder \<Rightarrow> string \<times> encoder \<Rightarrow> bool" where
  "append_only before after =
     (fst after = fst before \<and>
      (case enc_classes (snd before) of
         None \<Rightarrow> snd after = snd before
       | Some cs \<Rightarrow>
           snd after = snd before \<or>
           (''Unknown'' \<notin> set cs \<and>
            snd after = (snd before)\<lparr>enc_classes := Some (cs @ [''Unknown''])\<rparr>)))"

section \<open>Example inputs\<close>

text \<open>A record with all eleven features, the numeric ones holding numbers.\<close>

definition complete_record :: pydict where
  "complete_record =
     [(''channel_name'', PStr ''Inbound''),
      (''category'', PStr ''Returns''),
      (''Sub-category'', PStr ''Reverse Pickup Enquiry''),
      (''Item_price'', PInt 979),
      (''connected_handling_time'', PFloat 3.5),
      (''response_delay'', PInt 34),
      (''survey_delay'', PInt 0),
      (''sentiment_score'', PFloat 0.25),
      (''Agent_name'', PStr ''Richard Buchanan''),
      (''Agent Shift'', PStr ''Morning''),
      (''Tenure Bucket'', PStr ''On Job Training'')]"

text \<open>
  A record without \<open>sentiment_score\<close> and \<open>Agent_name\<close>, whose \<open>Item_price\<close> is a
  string.
\<close>

definition incomplete_record :: pydict where
  "incomplete_record =
     [(''Item_price'', PStr ''free''),
      (''channel_name'', PStr ''Inbound''),
      (''category'', PStr ''Returns''),
      (''Sub-category'', PStr ''Reverse Pickup Enquiry''),
      (''connected_handling_time'', PFloat 3.5),
      (''response_delay'', PInt 34),
      (''survey_delay'', PInt 0),
      (''Agent Shift'', PStr ''Morning''),
      (''Tenure Bucket'', PStr ''On Job Training'')]"

text \<open>The complete record with \<open>Item_price\<close> set to \<open>True\<close>.\<close>

definition bool_record :: pydict where
  "bool_record = set_column ''Item_price'' (PBool True) complete_record"

text \<open>
  A bundle of two fitted encoders with classes of dtype \<open>object\<close>; only the second
  knows the class \<open>Unknown\<close>.
\<close>

definition example_encoders :: encoders where
  "example_encoders =
     [(''channel_name'',
       \<lparr>enc_classes = Some [''Email'', ''Inbound'', ''Outcall''], enc_dtype = ObjectDtype\<rparr>),
      (''Agent Shift'',
       \<lparr>enc_classes = Some [''Evening'', ''Morning'', ''Unknown''], enc_dtype = ObjectDtype\<rparr>)]"

text \<open>The same bundle with \<open>Unknown\<close> added to the classes of \<open>channel_name\<close>.\<close>

definition example_encoders_after :: encoders where
  "example_encoders_after =
     [(''channel_name'',
       \<lparr>enc_classes = Some [''Email'', ''Inbound'', ''Outcall'', ''Unknown''],
        enc_dtype = ObjectDtype\<rparr>),
      (''Agent Shift'',
       \<lparr>enc_classes = Some [''Evening'', ''Morning'', ''Unknown''], enc_dtype = ObjectDtype\<rparr>)]"

text \<open>The complete record with a channel that no encoder has seen.\<close>

definition novel_record :: pydict where
  "novel_record = set_column ''channel_name'' (PStr ''Carrier pigeon'') complete_record"

text \<open>The row of that record: \<open>channel_name\<close> has the code of \<open>Unknown\<close>.\<close>

definition novel_vector :: "pyval list" where
  "novel_vector =
     [PInt 3, PStr ''Returns'', PStr ''Reverse Pickup Enquiry'', PInt 979, PFloat 3.5,
      PInt 34, PInt 0, PFloat 0.25, PStr ''Richard Buchanan'', PInt 1,
      PStr ''On Job Training'']"

text \<open>That record with a key outside the schema.\<close>

definition tagged_record :: pydict where
  "tagged_record = novel_record @ [(''ticket_id'', PInt 7)]"

text \<open>The cells of the complete record in schema order, none of them encoded.\<close>

definition complete_vector :: "pyval list" where
  "complete_vector =
     [PStr ''Inbound'', PStr ''Returns'', PStr ''Reverse Pickup Enquiry'', PInt 979,
      PFloat 3.5, PInt 34, PInt 0, PFloat 0.25, PStr ''Richard Buchanan'', PStr ''Morning'',
      PStr ''On Job Training'']"


text \<open>
  The complete record with the channel \<open>Email\<close> followed by a NUL character, which is
  none of the classes.
\<close>

definition padded_record :: pydict where
  "padded_record =
     set_column ''channel_name'' (PStr (''Email'' @ [CHR 0x00])) complete_record"

text \<open>The complete record with the channel \<open>Unknown\<close> followed by a NUL character.\<close>

definition padded_unknown_record :: pydict where
  "padded_unknown_record =
     set_column ''channel_name'' (PStr (''Unknown'' @ [CHR 0x00])) complete_record"

text \<open>The example bundle with classes of a unicode dtype for \<open>channel_name\<close>.\<close>

definition unicode_encoders :: encoders where
  "unicode_encoders =
     [(''channel_name'',
       \<lparr>enc_classes = Some [''Email'', ''Inbound'', ''Outcall''], enc_dtype = UnicodeDtype\<rparr>)]"

text \<open>A bundle whose encoder was never fitted.\<close>

definition unfitted_encoders :: encoders where
  "unfitted_encoders = [(''channel_name'', \<lparr>enc_classes = None, enc_dtype = ObjectDtype\<rparr>)]"

text \<open>A bundle with an encoder for a column that is not a feature of the schema.\<close>

definition extra_encoders :: encoders where
  "extra_encoders =
     [(''Product_category'',
       \<lparr>enc_classes = Some [''Electronics''], enc_dtype = ObjectDtype\<rparr>)]"

text \<open>That bundle after a call on a record that has the column.\<close>

definition unicode_encoders_after :: encoders where
  "unicode_encoders_after =
     [(''channel_name'',
       \<lparr>enc_classes = Some [''Email'', ''Inbound'', ''Outcall'', ''Unknown''],
        enc_dtype = UnicodeDtype\<rparr>)]"

text \<open>The row of the padded record under that bundle: the code of \<open>Email\<close>.\<close>

definition padded_vector :: "pyval list" where
  "padded_vector =
     [PInt 0, PStr ''Returns'', PStr ''Reverse Pickup Enquiry'', PInt 979, PFloat 3.5,
      PInt 34, PInt 0, PFloat 0.25, PStr ''Richard Buchanan'', PStr ''Morning'',
      PStr ''On Job Training'']"

text \<open>A request whose body parsed as JSON.\<close>

definition json_request :: "pydict \<Rightarrow> request" where
  "json_request data = \<lparr>is_json = True, json = data\<rparr>"

text \<open>
  A classifier whose \<open>predict\<close> raises \<open>ValueError\<close>, as it does on a string that it
  cannot convert.
\<close>

definition value_error_model :: classifier where
  "value_error_model =
     \<lparr>model_predict = (\<lambda>processed. Inl (ValueError ''could not convert string to float'')),
      model_predict_proba = (\<lambda>processed. Inr (PFloat 0.5))\<rparr>"

text \<open>A classifier whose \<open>predict_proba\<close> raises an exception that is not a \<open>ValueError\<close>.\<close>

definition broken_model :: classifier where
  "broken_model =
     \<lparr>model_predict = (\<lambda>processed. Inr (PInt 1)),
      model_predict_proba = (\<lambda>processed. Inl (OtherException ''index 1 is out of bounds''))\<rparr>"

text \<open>A classifier whose label is \<open>None\<close>, which \<open>int\<close> does not take.\<close>

definition none_model :: classifier where
  "none_model =
     \<lparr>model_predict = (\<lambda>processed. Inr PNone),
      model_predict_proba = (\<lambda>processed. Inr (PFloat 0.5))\<rparr>"

text \<open>A classifier that answers class 1 with probability 0.75.\<close>

definition working_model :: classifier where
  "working_model =
     \<lparr>model_predict = (\<lambda>processed. Inr (PInt 1)),
      model_predict_proba = (\<lambda>processed. Inr (PFloat 0.75))\<rparr>"

text \<open>
  Readings of a string for the examples: the decimal numerals of ASCII digits with an
  optional minus sign, and no other string (Python reads more strings than these).
\<close>

fun read_digits :: "string \<Rightarrow> nat \<Rightarrow> nat option" where
  "read_digits [] n = Some n"
| "read_digits (c # cs) n =
     (if 48 \<le> (of_char c :: nat) \<and> (of_char c :: nat) \<le> 57
      then read_digits cs (10 * n + (of_char c - 48))
      else None)"

fun read_decimal :: "string \<Rightarrow> int option" where
  "read_decimal [] = None"
| "read_decimal (c # cs) =
     (if c = CHR ''-'' then (if cs = [] then None else map_option (\<lambda>n. - int n) (read_digits cs 0))
      else map_option int (read_digits (c # cs) 0))"

definition example_builtins :: builtins where
  "example_builtins =
     \<lparr>int_of_str = read_decimal, float_of_str = (\<lambda>s. map_option real_of_int (read_decimal s))\<rparr>"

section \<open>Properties of validate_input\<close>

lemma check_required_eq:
  "check_required data fs errors =
     errors @ map missing_message (filter (\<lambda>f. \<not> has_key data f) fs)"
  by (induction fs arbitrary: errors) simp_all

lemma check_numeric_eq:
  "check_numeric data fs errors =
     errors @ map numeric_message (filter (not_numeric data) fs)"
  by (induction fs arbitrary: errors) (simp_all add: not_numeric_def split: option.splits)

lemma validate_input_eq:
  "validate_input data =
     map missing_message (filter (\<lambda>f. \<not> has_key data f) FEATURES) @
     map numeric_message (filter (not_numeric data) numeric_features)"
  by (simp add: validate_input_def check_required_eq check_numeric_eq)

lemma missing_message_inj: "missing_message f = missing_message g \<longleftrightarrow> f = g"
  by (simp add: missing_message_def)

lemma numeric_message_inj: "numeric_message f = numeric_message g \<longleftrightarrow> f = g"
  by (simp add: numeric_message_def)

lemma missing_not_numeric_message: "missing_message f \<noteq> numeric_message g"
  by (simp add: missing_message_def numeric_message_def)

lemma distinct_FEATURES: "distinct FEATURES"
  by (simp add: FEATURES_def)

lemma length_FEATURES: "length FEATURES = 11"
  by (simp add: FEATURES_def)

lemma distinct_numeric_features: "distinct numeric_features"
  by (simp add: numeric_features_def)

lemma numeric_features_subset: "set numeric_features \<subseteq> set FEATURES"
  by (simp add: numeric_features_def FEATURES_def)

lemma count_list_distinct:
  "distinct xs \<Longrightarrow> count_list xs x = (if x \<in> set xs then 1 else 0)"
  by (induction xs) auto

lemma count_list_map_inj:
  "(\<And>a b. f a = f b \<longleftrightarrow> a = b) \<Longrightarrow> count_list (map f xs) (f x) = count_list xs x"
  by (induction xs) auto

lemma count_list_absent: "x \<notin> set xs \<Longrightarrow> count_list xs x = 0"
  by (induction xs) auto

lemma missing_messages_set:
  "{m \<in> set (validate_input data). \<exists>f. m = missing_message f} =
     missing_message ` (set FEATURES - {f. has_key data f})"
  using missing_not_numeric_message by (auto simp: validate_input_eq)

lemma missing_message_count:
  "count_list (validate_input data) (missing_message f) =
     (if f \<in> set FEATURES \<and> \<not> has_key data f then 1 else 0)"
proof -
  have "count_list (map numeric_message (filter (not_numeric data) numeric_features))
          (missing_message f) = 0"
    using missing_not_numeric_message by (intro count_list_absent) auto
  moreover have "count_list (map missing_message (filter (\<lambda>f. \<not> has_key data f) FEATURES))
          (missing_message f) = (if f \<in> set FEATURES \<and> \<not> has_key data f then 1 else 0)"
    by (simp add: count_list_map_inj missing_message_inj count_list_distinct distinct_FEATURES)
  ultimately show ?thesis
    by (simp add: validate_input_eq)
qed

lemma validate_input_Nil_iff:
  "validate_input data = [] \<longleftrightarrow>
     (\<forall>f \<in> set FEATURES. has_key data f) \<and> (\<forall>f \<in> set numeric_features. \<not> not_numeric data f)"
  by (auto simp: validate_input_eq filter_empty_conv)

lemma numeric_not_missing_message: "numeric_message g \<noteq> missing_message f"
  by (simp add: missing_message_def numeric_message_def)

lemma numeric_message_mem:
  "numeric_message f \<in> set (validate_input data) \<longleftrightarrow> f \<in> set numeric_features \<and> not_numeric data f"
  by (auto simp: validate_input_eq numeric_message_inj numeric_not_missing_message)

section \<open>The validator\<close>

text \<open>
  C1: for every record, the messages \<open>Missing required feature: <name>\<close> that
  \<open>validate_input\<close> returns are those of the features of the schema of 11 entries that
  are not keys of the record, each of them once; \<open>validate_input\<close> returns the empty
  list exactly when no check fails; and the list holds every failure, the missing
  features in schema order followed by the failed numeric checks.
\<close>

theorem validate_input_missing_features:
  "length FEATURES = 11 \<and> distinct FEATURES \<and>
   {m \<in> set (validate_input data). \<exists>f. m = missing_message f} =
     missing_message ` (set FEATURES - {f. has_key data f}) \<and>
   (\<forall>f \<in> set FEATURES. \<not> has_key data f \<longrightarrow>
      count_list (validate_input data) (missing_message f) = 1) \<and>
   (validate_input data = [] \<longleftrightarrow>
      (\<forall>f \<in> set FEATURES. has_key data f) \<and>
      (\<forall>f \<in> set numeric_features. \<not> not_numeric data f)) \<and>
   validate_input data =
     map missing_message (filter (\<lambda>f. \<not> has_key data f) FEATURES) @
     map numeric_message (filter (not_numeric data) numeric_features)"
proof -
  have "\<forall>f \<in> set FEATURES. \<not> has_key data f \<longrightarrow>
      count_list (validate_input data) (missing_message f) = 1"
    by (simp add: missing_message_count)
  then show ?thesis
    using length_FEATURES distinct_FEATURES missing_messages_set[of data]
      validate_input_Nil_iff[of data] validate_input_eq[of data]
    by blast
qed

theorem validate_input_missing_features_witness:
  "validate_input incomplete_record =
     [missing_message ''sentiment_score'', missing_message ''Agent_name'',
      numeric_message ''Item_price''] \<and>
   count_list (validate_input incomplete_record) (missing_message ''Agent_name'') = 1 \<and>
   validate_input complete_record = []"
proof -
  note incomplete = validate_input_missing_features[of incomplete_record]
  note complete = validate_input_missing_features[of complete_record]
  have 1: "filter (\<lambda>f. \<not> has_key incomplete_record f) FEATURES =
      [''sentiment_score'', ''Agent_name'']"
    by (simp add: FEATURES_def incomplete_record_def has_key_def)
  have 2: "filter (not_numeric incomplete_record) numeric_features = [''Item_price'']"
    by (simp add: numeric_features_def incomplete_record_def not_numeric_def)
  have 3: "''Agent_name'' \<in> set FEATURES" "\<not> has_key incomplete_record ''Agent_name''"
    by (simp_all add: FEATURES_def incomplete_record_def has_key_def)
  have 4: "\<forall>f \<in> set FEATURES. has_key complete_record f"
    by (simp add: FEATURES_def complete_record_def has_key_def)
  have 5: "\<forall>f \<in> set numeric_features. \<not> not_numeric complete_record f"
    by (simp add: numeric_features_def complete_record_def not_numeric_def)
  have "validate_input incomplete_record =
     [missing_message ''sentiment_score'', missing_message ''Agent_name'',
      numeric_message ''Item_price'']"
    using incomplete[THEN conjunct2, THEN conjunct2, THEN conjunct2, THEN conjunct2,
        THEN conjunct2] 1 2
    by simp
  moreover have
    "count_list (validate_input incomplete_record) (missing_message ''Agent_name'') = 1"
    using incomplete[THEN conjunct2, THEN conjunct2, THEN conjunct2, THEN conjunct1] 3
    by blast
  moreover have "validate_input complete_record = []"
    using complete[THEN conjunct2, THEN conjunct2, THEN conjunct2, THEN conjunct2,
        THEN conjunct1] 4 5
    by blast
  ultimately show ?thesis by blast
qed

text \<open>
  C5: for every record and every feature of the numeric subset: a string value gives the
  message \<open>Feature <name> must be numeric\<close>; an integer or a float gives no such
  message; and an absent feature gives no such message, only the one of a missing
  feature.
\<close>

theorem validate_input_numeric_check:
  "set numeric_features =
     {''Item_price'', ''connected_handling_time'', ''response_delay'', ''survey_delay'',
      ''sentiment_score''} \<and>
   (\<forall>f \<in> set numeric_features.
      (\<forall>s. map_of data f = Some (PStr s) \<longrightarrow>
         numeric_message f \<in> set (validate_input data)) \<and>
      (\<forall>i. map_of data f = Some (PInt i) \<longrightarrow>
         numeric_message f \<notin> set (validate_input data)) \<and>
      (\<forall>x. map_of data f = Some (PFloat x) \<longrightarrow>
         numeric_message f \<notin> set (validate_input data)) \<and>
      (map_of data f = None \<longrightarrow>
         numeric_message f \<notin> set (validate_input data) \<and>
         missing_message f \<in> set (validate_input data)))"
proof -
  have "missing_message f \<in> set (validate_input data)"
    if "f \<in> set numeric_features" "map_of data f = None" for f
  proof -
    from that have "f \<in> set FEATURES" "\<not> has_key data f"
      using numeric_features_subset by (auto simp: has_key_def)
    then show ?thesis by (simp add: validate_input_eq)
  qed
  moreover have "set numeric_features =
     {''Item_price'', ''connected_handling_time'', ''response_delay'', ''survey_delay'',
      ''sentiment_score''}"
    by (simp add: numeric_features_def)
  ultimately show ?thesis
    by (simp add: numeric_message_mem not_numeric_def)
qed

theorem validate_input_numeric_check_witness:
  "numeric_message ''Item_price'' \<in> set (validate_input incomplete_record) \<and>
   numeric_message ''response_delay'' \<notin> set (validate_input incomplete_record) \<and>
   numeric_message ''connected_handling_time'' \<notin> set (validate_input incomplete_record) \<and>
   numeric_message ''sentiment_score'' \<notin> set (validate_input incomplete_record) \<and>
   missing_message ''sentiment_score'' \<in> set (validate_input incomplete_record)"
proof -
  have 1: "map_of incomplete_record ''Item_price'' = Some (PStr ''free'')"
    "map_of incomplete_record ''response_delay'' = Some (PInt 34)"
    "map_of incomplete_record ''connected_handling_time'' = Some (PFloat 3.5)"
    "map_of incomplete_record ''sentiment_score'' = None"
    by (simp_all add: incomplete_record_def)
  have 2: "''Item_price'' \<in> set numeric_features" "''response_delay'' \<in> set numeric_features"
    "''connected_handling_time'' \<in> set numeric_features"
    "''sentiment_score'' \<in> set numeric_features"
    by (simp_all add: numeric_features_def)
  note checks = validate_input_numeric_check[of incomplete_record, THEN conjunct2]
  have "numeric_message ''Item_price'' \<in> set (validate_input incomplete_record)"
    using bspec[OF checks 2(1)] 1(1) by blast
  moreover have
    "numeric_message ''response_delay'' \<notin> set (validate_input incomplete_record)"
    using bspec[OF checks 2(2)] 1(2) by blast
  moreover have
    "numeric_message ''connected_handling_time'' \<notin> set (validate_input incomplete_record)"
    using bspec[OF checks 2(3)] 1(3) by blast
  moreover have
    "numeric_message ''sentiment_score'' \<notin> set (validate_input incomplete_record) \<and>
     missing_message ''sentiment_score'' \<in> set (validate_input incomplete_record)"
    using bspec[OF checks 2(4)] 1(4) by blast
  ultimately show ?thesis by blast
qed

text \<open>
  C10: a boolean held by a numeric-designated feature passes the type check: no
  \<open>must be numeric\<close> message is given for it, and a record that has every feature and
  whose other numeric features pass the check validates with no error.
\<close>

theorem validate_input_accepts_bool:
  "(f \<in> set numeric_features \<and> map_of data f = Some (PBool b) \<longrightarrow>
      numeric_message f \<notin> set (validate_input data)) \<and>
   ((\<forall>g \<in> set FEATURES. has_key data g) \<and>
    (\<forall>g \<in> set numeric_features - {f}. \<not> not_numeric data g) \<and>
    map_of data f = Some (PBool b) \<longrightarrow> validate_input data = [])"
proof -
  have "\<not> not_numeric data f" if "map_of data f = Some (PBool b)"
    using that by (simp add: not_numeric_def)
  then show ?thesis
    by (auto simp: numeric_message_mem validate_input_Nil_iff)
qed

theorem validate_input_accepts_bool_witness:
  "map_of bool_record ''Item_price'' = Some (PBool True) \<and>
   numeric_message ''Item_price'' \<notin> set (validate_input bool_record) \<and>
   validate_input bool_record = []"
proof -
  have 1: "map_of bool_record ''Item_price'' = Some (PBool True)"
    by (simp add: bool_record_def complete_record_def)
  have 2: "''Item_price'' \<in> set numeric_features"
    by (simp add: numeric_features_def)
  have 3: "\<forall>g \<in> set FEATURES. has_key bool_record g"
    by (simp add: FEATURES_def bool_record_def complete_record_def has_key_def)
  have 4: "\<forall>g \<in> set numeric_features - {''Item_price''}. \<not> not_numeric bool_record g"
    by (simp add: numeric_features_def bool_record_def complete_record_def not_numeric_def)
  note bool = validate_input_accepts_bool[of "''Item_price''" bool_record True]
  have "numeric_message ''Item_price'' \<notin> set (validate_input bool_record)"
    using bool[THEN conjunct1] 1 2 by blast
  moreover have "validate_input bool_record = []"
    using bool[THEN conjunct2] 1 3 4 by blast
  ultimately show ?thesis using 1 by blast
qed

section \<open>Properties of the frame and of the encoders\<close>

lemma map_of_set_column: "map_of (set_column col v df) = (map_of df)(col \<mapsto> v)"
  by (induction df) (auto simp: fun_eq_iff)

lemma has_key_set_column: "has_key (set_column col v df) k \<longleftrightarrow> k = col \<or> has_key df k"
  by (simp add: has_key_def map_of_set_column)

lemma map_of_fill_missing:
  "map_of (fill_missing fs df) k =
     (case map_of df k of
        Some v \<Rightarrow> Some v
      | None \<Rightarrow> if k \<in> set fs then Some (PInt 0) else None)"
  by (induction fs arbitrary: df)
     (auto simp: map_of_set_column has_key_def split: option.splits)

lemma select_columns_present:
  "\<forall>c \<in> set cols. has_key df c \<Longrightarrow>
   select_columns cols df = Inr (map (\<lambda>c. the (map_of df c)) cols)"
  by (induction cols) (auto simp: has_key_def)

lemma select_fill_missing:
  "select_columns fs (fill_missing fs df) = Inr (map (column_value df) fs)"
proof -
  have "\<forall>c \<in> set fs. has_key (fill_missing fs df) c"
    by (auto simp: has_key_def map_of_fill_missing split: option.splits)
  then have "select_columns fs (fill_missing fs df) =
      Inr (map (\<lambda>c. the (map_of (fill_missing fs df) c)) fs)"
    by (rule select_columns_present)
  also have "map (\<lambda>c. the (map_of (fill_missing fs df) c)) fs = map (column_value df) fs"
    by (auto simp: map_of_fill_missing column_value_def split: option.splits)
  finally show ?thesis .
qed

lemma preprocess_body_eq:
  "preprocess_body les data =
     (case encode_columns les data of
        (les', Inl e) \<Rightarrow> (les', Inl e)
      | (les', Inr df) \<Rightarrow> (les', Inr (df_values (map (column_value df) FEATURES))))"
  by (simp add: preprocess_body_def select_fill_missing split: prod.splits sum.splits)

lemma preprocess_input_encode_columns:
  "preprocess_input les data =
     (case encode_columns les data of
        (les', Inl e) \<Rightarrow> (les', Inl (ValueError (''Preprocessing failed: '' @ exn_str e)))
      | (les', Inr df) \<Rightarrow> (les', Inr (df_values (map (column_value df) FEATURES))))"
  by (simp add: preprocess_input_def preprocess_body_eq split: prod.splits sum.splits)

lemma preprocess_input_Inr:
  "preprocess_input les data = (les', Inr processed) \<longleftrightarrow>
     (\<exists>df'. encode_columns les data = (les', Inr df') \<and>
        processed = df_values (map (column_value df') FEATURES))"
  by (auto simp: preprocess_input_encode_columns split: prod.splits sum.splits)

lemma class_code_absent: "y \<notin> set cs \<Longrightarrow> class_code cs i y = None"
  by (induction cs arbitrary: i) auto

lemma class_code_present: "y \<in> set cs \<Longrightarrow> class_code cs i y \<noteq> None"
proof (induction cs arbitrary: i)
  case Nil
  then show ?case by simp
next
  case (Cons c cs)
  show ?case
  proof (cases "y \<in> set cs")
    case True
    then have "class_code cs (i + 1) y \<noteq> None" by (rule Cons.IH)
    then show ?thesis by (auto split: option.splits)
  next
    case False
    with Cons.prems have "c = y" by simp
    then show ?thesis by (simp split: option.splits)
  qed
qed

lemma class_code_None: "class_code cs i y = None \<longleftrightarrow> y \<notin> set cs"
  using class_code_absent class_code_present by blast

lemma class_code_append_other:
  "y \<noteq> u \<Longrightarrow> class_code (cs @ [u]) i y = class_code cs i y"
  by (induction cs arbitrary: i) (auto split: option.splits)

lemma class_code_append_new:
  "class_code (cs @ [u]) i u = Some (i + int (length cs))"
  by (induction cs arbitrary: i) (auto split: option.splits)

lemma transform_known: "y \<in> set cs \<Longrightarrow> \<exists>code. transform cs y = Inr code"
  using class_code_present[of y cs 0] by (auto simp: transform_def)

lemma transform_unknown_label:
  "y \<notin> set cs \<Longrightarrow>
   transform cs y = Inl (ValueError (''y contains previously unseen labels: '' @ py_repr y))"
  by (simp add: transform_def class_code_absent)

lemma strip_nul_Unknown: "strip_nul ''Unknown'' = ''Unknown''"
  by (simp add: strip_nul_def)

lemma label_known:
  assumes "dtype = UnicodeDtype \<or> plain x"
  shows "as_classes_dtype dtype (handle_unseen cs x) \<in> set (add_unknown cs)"
proof (cases x)
  case (PStr s)
  show ?thesis
  proof (cases "strip_nul s \<in> set cs")
    case True
    with PStr assms show ?thesis
      by (cases dtype) (auto simp: add_unknown_def)
  next
    case False
    with PStr show ?thesis
      by (cases dtype) (auto simp: add_unknown_def strip_nul_Unknown)
  qed
qed (cases dtype; auto simp: add_unknown_def strip_nul_Unknown)+

lemma transform_label:
  assumes "dtype = UnicodeDtype \<or> plain x"
  shows "\<exists>code. transform (add_unknown cs) (as_classes_dtype dtype (handle_unseen cs x)) = Inr code"
  using label_known[OF assms] by (rule transform_known)

lemma add_unknown_idem: "add_unknown (add_unknown cs) = add_unknown cs"
  by (simp add: add_unknown_def)

lemma transform_append_unknown:
  "s \<in> set cs \<Longrightarrow> transform (add_unknown cs) s = transform cs s"
proof (cases "''Unknown'' \<in> set cs")
  case True
  then show ?thesis by (simp add: add_unknown_def)
next
  case False
  assume "s \<in> set cs"
  with False have "s \<noteq> ''Unknown''" by auto
  then have "class_code (cs @ [''Unknown'']) 0 s = class_code cs 0 s"
    by (rule class_code_append_other)
  with False show ?thesis by (simp add: transform_def add_unknown_def)
qed

lemma take_add_unknown: "take (length cs) (add_unknown cs) = cs"
  by (simp add: add_unknown_def)

lemma encode_columns_cong:
  "map_of df1 = map_of df2 \<Longrightarrow>
   map_prod id (map_sum id map_of) (encode_columns les df1) =
   map_prod id (map_sum id map_of) (encode_columns les df2)"
proof (induction les arbitrary: df1 df2)
  case Nil
  then show ?case by simp
next
  case (Cons entry les)
  obtain col le where entry: "entry = (col, le)" by (cases entry)
  show ?case
  proof (cases "map_of df2 col")
    case None
    with Cons.prems Cons.IH[OF Cons.prems] entry show ?thesis
      by (auto split: prod.splits)
  next
    case (Some x)
    show ?thesis
    proof (cases "enc_classes le")
      case None
      with Cons.prems Some entry show ?thesis by simp
    next
      case cs: (Some cs)
      show ?thesis
      proof (cases "transform (add_unknown cs)
          (as_classes_dtype (enc_dtype le) (handle_unseen cs x))")
        case (Inl e)
        with Cons.prems Some cs entry show ?thesis by simp
      next
        case (Inr code)
        have "map_of (set_column col (PInt code) df1) =
            map_of (set_column col (PInt code) df2)"
          using Cons.prems by (simp add: map_of_set_column)
        from Cons.IH[OF this] Cons.prems Some cs Inr entry show ?thesis
          by (auto split: prod.splits)
      qed
    qed
  qed
qed

lemma column_value_cong: "map_of d1 = map_of d2 \<Longrightarrow> column_value d1 = column_value d2"
  by (simp add: fun_eq_iff column_value_def)

lemma preprocess_input_cong:
  assumes "map_of data1 = map_of data2"
  shows "preprocess_input les data1 = preprocess_input les data2"
proof -
  let ?fail = "\<lambda>e. ValueError (''Preprocessing failed: '' @ exn_str e)"
  let ?array = "\<lambda>d. df_values (map (column_value d) FEATURES)"
  obtain s1 q1 where e1: "encode_columns les data1 = (s1, q1)"
    by (cases "encode_columns les data1")
  obtain s2 q2 where e2: "encode_columns les data2 = (s2, q2)"
    by (cases "encode_columns les data2")
  from encode_columns_cong[OF assms, of les] e1 e2
  have s: "s1 = s2" and q: "map_sum id map_of q1 = map_sum id map_of q2"
    by simp_all
  have "preprocess_input les data1 = (s1, map_sum ?fail ?array q1)"
    using e1 by (cases q1) (simp_all add: preprocess_input_encode_columns)
  moreover have "preprocess_input les data2 = (s2, map_sum ?fail ?array q2)"
    using e2 by (cases q2) (simp_all add: preprocess_input_encode_columns)
  moreover have "map_sum ?fail ?array q1 = map_sum ?fail ?array q2"
  proof (cases q1)
    case (Inl a)
    with q show ?thesis by (cases q2) simp_all
  next
    case (Inr d1)
    with q obtain d2 where "q2 = Inr d2" "map_of d1 = map_of d2"
      by (cases q2) simp_all
    with Inr column_value_cong[of d1 d2] show ?thesis by simp
  qed
  ultimately show ?thesis
    using s by simp
qed

lemma encode_columns_Cons_Inr:
  "encode_columns ((col, le) # rest) df = (les', Inr df') \<longleftrightarrow>
     (map_of df col = None \<and>
      (\<exists>rest'. encode_columns rest df = (rest', Inr df') \<and> les' = (col, le) # rest')) \<or>
     (\<exists>x cs code rest'.
        map_of df col = Some x \<and> enc_classes le = Some cs \<and>
        transform (add_unknown cs) (as_classes_dtype (enc_dtype le) (handle_unseen cs x)) =
          Inr code \<and>
        encode_columns rest (set_column col (PInt code) df) = (rest', Inr df') \<and>
        les' = (col, le\<lparr>enc_classes := Some (add_unknown cs)\<rparr>) # rest')"
  by (auto split: option.splits sum.splits prod.splits)

lemma has_key_encode_columns:
  "encode_columns les df = (les', Inr df') \<Longrightarrow> has_key df' k = has_key df k"
proof (induction les arbitrary: df les')
  case Nil
  then show ?case by auto
next
  case (Cons entry les)
  obtain col le where entry: "entry = (col, le)" by (cases entry)
  from Cons.prems[unfolded entry encode_columns_Cons_Inr] show ?case
  proof (elim disjE conjE exE)
    fix rest'
    assume "encode_columns les df = (rest', Inr df')"
    then show ?thesis by (rule Cons.IH)
  next
    fix x cs code rest'
    assume x: "map_of df col = Some x"
      and "encode_columns les (set_column col (PInt code) df) = (rest', Inr df')"
    then have "has_key df' k = has_key (set_column col (PInt code) df) k"
      using Cons.IH by blast
    with x show ?thesis
      by (auto simp: has_key_def map_of_set_column)
  qed
qed

lemma after_call_set_column:
  "has_key df col \<Longrightarrow> after_call (set_column col v df) = after_call df"
  by (auto simp: fun_eq_iff after_call_def has_key_set_column)

lemma encode_columns_state:
  "encode_columns les df = (les', Inr df') \<Longrightarrow> les' = map (after_call df) les"
proof (induction les arbitrary: df les')
  case Nil
  then show ?case by auto
next
  case (Cons entry les)
  obtain col le where entry: "entry = (col, le)" by (cases entry)
  from Cons.prems[unfolded entry encode_columns_Cons_Inr] show ?case
  proof (elim disjE conjE exE)
    fix rest'
    assume "map_of df col = None" "encode_columns les df = (rest', Inr df')"
      "les' = (col, le) # rest'"
    with Cons.IH[of df rest'] entry show ?thesis
      by (simp add: after_call_def has_key_def)
  next
    fix x cs code rest'
    assume x: "map_of df col = Some x" and cs: "enc_classes le = Some cs"
      and rest: "encode_columns les (set_column col (PInt code) df) = (rest', Inr df')"
      and les': "les' = (col, le\<lparr>enc_classes := Some (add_unknown cs)\<rparr>) # rest'"
    from x have "has_key df col" by (simp add: has_key_def)
    then have "after_call (set_column col (PInt code) df) = after_call df"
      by (rule after_call_set_column)
    with Cons.IH[OF rest] les' x cs entry \<open>has_key df col\<close> show ?thesis
      by (simp add: after_call_def)
  qed
qed

lemma map_of_after_call:
  "map_of (map (after_call data) les) col =
     map_option (\<lambda>le. snd (after_call data (col, le))) (map_of les col)"
  by (induction les) (auto simp: after_call_def)

lemma set_set_column: "set (set_column col v df) \<subseteq> insert (col, v) (set df)"
  by (induction col v df rule: set_column.induct) auto

lemma plain_record_set_column:
  "plain v \<Longrightarrow> plain_record df \<Longrightarrow> plain_record (set_column col v df)"
  using set_set_column[of col v df] by (fastforce simp: plain_record_def)

lemma plain_record_cell:
  assumes "plain_record df" and "map_of df col = Some x"
  shows "plain x"
proof -
  from assms(2) have "(col, x) \<in> set df" by (rule map_of_SomeD)
  with assms(1) have "plain (snd (col, x))"
    unfolding plain_record_def by (rule bspec)
  then show ?thesis by simp
qed

lemma encode_columns_returns:
  "fitted les \<Longrightarrow> plain_record df \<Longrightarrow> \<exists>les' df'. encode_columns les df = (les', Inr df')"
proof (induction les arbitrary: df)
  case Nil
  then show ?case by simp
next
  case (Cons entry les)
  obtain col le where entry: "entry = (col, le)" by (cases entry)
  from Cons.prems(1) entry obtain cs where cs: "enc_classes le = Some cs"
    by (auto simp: fitted_def)
  from Cons.prems(1) have fit: "fitted les"
    by (simp add: fitted_def)
  show ?case
  proof (cases "map_of df col")
    case None
    with Cons.IH[OF fit Cons.prems(2)] entry show ?thesis
      by auto
  next
    case (Some x)
    with Cons.prems(2) have "plain x" by (rule plain_record_cell)
    then obtain code where code: "transform (add_unknown cs)
        (as_classes_dtype (enc_dtype le) (handle_unseen cs x)) = Inr code"
      using transform_label by blast
    have "plain_record (set_column col (PInt code) df)"
      using Cons.prems(2) by (simp add: plain_record_set_column)
    from Cons.IH[OF fit this] Some cs code entry show ?thesis
      by auto
  qed
qed

lemma preprocess_input_returns:
  "fitted les \<Longrightarrow> plain_record data \<Longrightarrow>
   \<exists>les' processed. preprocess_input les data = (les', Inr processed)"
  using encode_columns_returns[of les data] by (auto simp: preprocess_input_Inr)

lemma encode_columns_no_encoder:
  "encode_columns les df = (les', Inr df') \<Longrightarrow> map_of les k = None \<Longrightarrow>
   map_of df' k = map_of df k"
proof (induction les arbitrary: df les')
  case Nil
  then show ?case by auto
next
  case (Cons entry les)
  obtain col le where entry: "entry = (col, le)" by (cases entry)
  from Cons.prems(2) entry have k: "k \<noteq> col" "map_of les k = None"
    by (auto split: if_splits)
  from Cons.prems(1)[unfolded entry encode_columns_Cons_Inr] show ?case
  proof (elim disjE conjE exE)
    fix rest'
    assume "encode_columns les df = (rest', Inr df')"
    then show ?thesis using k by (intro Cons.IH)
  next
    fix x cs code rest'
    assume "encode_columns les (set_column col (PInt code) df) = (rest', Inr df')"
    then have "map_of df' k = map_of (set_column col (PInt code) df) k"
      using k by (intro Cons.IH)
    with k show ?thesis by (simp add: map_of_set_column)
  qed
qed

lemma encode_columns_encoded:
  "encode_columns les df = (les', Inr df') \<Longrightarrow> distinct (map fst les) \<Longrightarrow>
   map_of les k = Some le \<Longrightarrow> map_of df k = Some x \<Longrightarrow>
   \<exists>cs code. enc_classes le = Some cs \<and>
     transform (add_unknown cs) (as_classes_dtype (enc_dtype le) (handle_unseen cs x)) =
       Inr code \<and>
     map_of df' k = Some (PInt code)"
proof (induction les arbitrary: df les')
  case Nil
  then show ?case by auto
next
  case (Cons entry les)
  obtain col lenc where entry: "entry = (col, lenc)" by (cases entry)
  from Cons.prems(2) entry have dist: "distinct (map fst les)" and notin: "col \<notin> fst ` set les"
    by auto
  show ?case
  proof (cases "k = col")
    case True
    with Cons.prems(3) entry have le: "lenc = le" by simp
    from notin have none: "map_of les col = None"
      by (simp add: map_of_eq_None_iff)
    from Cons.prems(1)[unfolded entry encode_columns_Cons_Inr] Cons.prems(4) True
    obtain cs code rest' where
      cs: "enc_classes lenc = Some cs" and
      code: "transform (add_unknown cs)
          (as_classes_dtype (enc_dtype lenc) (handle_unseen cs x)) = Inr code" and
      rest: "encode_columns les (set_column col (PInt code) df) = (rest', Inr df')"
      by auto
    from encode_columns_no_encoder[OF rest none]
    have "map_of df' col = Some (PInt code)"
      by (simp add: map_of_set_column)
    with cs code le True show ?thesis by auto
  next
    case False
    with Cons.prems(3) entry have le: "map_of les k = Some le" by simp
    from Cons.prems(1)[unfolded entry encode_columns_Cons_Inr] show ?thesis
    proof (elim disjE conjE exE)
      fix rest'
      assume "encode_columns les df = (rest', Inr df')"
      from Cons.IH[OF this dist le Cons.prems(4)] show ?thesis .
    next
      fix y cs code rest'
      assume rest: "encode_columns les (set_column col (PInt code) df) = (rest', Inr df')"
      from False Cons.prems(4) have "map_of (set_column col (PInt code) df) k = Some x"
        by (simp add: map_of_set_column)
      from Cons.IH[OF rest dist le this] show ?thesis .
    qed
  qed
qed

lemma append_only_refl: "append_only entry entry"
  by (simp add: append_only_def split: option.splits)

lemma list_all2_append_only_refl: "list_all2 append_only les les"
  by (simp add: list_all2_refl append_only_refl)

lemma append_only_add_unknown:
  "enc_classes le = Some cs \<Longrightarrow>
   append_only (col, le) (col, le\<lparr>enc_classes := Some (add_unknown cs)\<rparr>)"
  by (auto simp: append_only_def add_unknown_def)

lemma encode_columns_append_only:
  "encode_columns les df = (les', r) \<Longrightarrow> list_all2 append_only les les'"
proof (induction les arbitrary: df les' r)
  case Nil
  then show ?case by simp
next
  case (Cons entry les)
  obtain col le where entry: "entry = (col, le)" by (cases entry)
  show ?case
  proof (cases "map_of df col")
    case None
    obtain rest' r' where rest: "encode_columns les df = (rest', r')"
      by (cases "encode_columns les df")
    with Cons.prems None entry have "les' = (col, le) # rest'"
      by auto
    with Cons.IH[OF rest] entry show ?thesis
      by (simp add: append_only_refl)
  next
    case (Some x)
    show ?thesis
    proof (cases "enc_classes le")
      case None
      with Cons.prems Some entry have "les' = entry # les" by auto
      then show ?thesis by (simp add: list_all2_append_only_refl append_only_refl)
    next
      case cs: (Some cs)
      let ?le' = "le\<lparr>enc_classes := Some (add_unknown cs)\<rparr>"
      show ?thesis
      proof (cases "transform (add_unknown cs)
          (as_classes_dtype (enc_dtype le) (handle_unseen cs x))")
        case (Inl e)
        with Cons.prems Some cs entry have "les' = (col, ?le') # les"
          by auto
        with entry append_only_add_unknown[OF cs] show ?thesis
          by (simp add: list_all2_append_only_refl)
      next
        case (Inr code)
        let ?df' = "set_column col (PInt code) df"
        obtain rest' r' where rest: "encode_columns les ?df' = (rest', r')"
          by (cases "encode_columns les ?df'")
        with Cons.prems Some cs Inr entry have "les' = (col, ?le') # rest'"
          by auto
        with Cons.IH[OF rest] entry append_only_add_unknown[OF cs] show ?thesis
          by simp
      qed
    qed
  qed
qed

lemma preprocess_input_append_only:
  "preprocess_input les data = (les', r) \<Longrightarrow> list_all2 append_only les les'"
proof -
  assume a: "preprocess_input les data = (les', r)"
  obtain s q where enc: "encode_columns les data = (s, q)"
    by (cases "encode_columns les data")
  with a have "s = les'"
    by (auto simp: preprocess_input_encode_columns split: sum.splits)
  with enc show ?thesis
    using encode_columns_append_only by blast
qed

section \<open>Properties of the array\<close>

lemma astype_object: "astype ObjectColumn v = v"
  by (cases v) simp_all

lemma find_common_type_object:
  "ObjectColumn \<in> set types \<Longrightarrow> find_common_type types = ObjectColumn"
  by (cases types) (auto simp: list_all_iff)

lemma map_astype_object: "map (astype ObjectColumn) row = row"
  by (induction row) (simp_all add: astype_object)

lemma df_values_object:
  "ObjectColumn \<in> dtype_of ` set row \<Longrightarrow> df_values row = [row]"
  by (simp add: df_values_def find_common_type_object map_astype_object)



lemma df_values_row:
  "df_values row = [map (astype (find_common_type (map dtype_of row))) row]"
  by (simp add: df_values_def)

lemma df_values_numeric_example:
  "df_values [PInt 3, PFloat 3.5, PInt 0] = [[PFloat 3, PFloat 3.5, PFloat 0]]"
  by (simp add: df_values_def float64_of_int_def round53_def)

lemma df_values_int_example:
  "df_values [PInt 3, PInt 979, PInt 0] = [[PInt 3, PInt 979, PInt 0]]"
  by (simp add: df_values_def)

lemma df_values_bool_example:
  "df_values [PInt 3, PBool True, PFloat 0.5] = [[PInt 3, PBool True, PFloat 0.5]]"
  by (simp add: df_values_def)

lemma bit_length_example: "bit_length 9007199254740993 = 54"
  by simp

lemma round53_example: "round53 9007199254740993 = 9007199254740992"
  by (simp add: round53_def Let_def del: bit_length.simps add: bit_length_example)

lemma float64_of_int_example: "float64_of_int 9007199254740993 = 9007199254740992"
proof -
  have "nat 9007199254740993 = 9007199254740993" by simp
  then show ?thesis
    by (simp add: float64_of_int_def round53_example)
qed

lemma df_values_rounds:
  "df_values [PInt 9007199254740993, PFloat 0.5] = [[PFloat 9007199254740992, PFloat 0.5]]"
  by (simp add: df_values_def float64_of_int_example)

section \<open>Examples evaluated\<close>

lemma encode_columns_example:
  "encode_columns example_encoders novel_record =
     (example_encoders_after,
      Inr (set_column ''Agent Shift'' (PInt 1)
             (set_column ''channel_name'' (PInt 3) novel_record)))"
  by (simp add: example_encoders_def example_encoders_after_def novel_record_def
      complete_record_def transform_def add_unknown_def strip_nul_def)

lemma preprocess_input_example:
  "preprocess_input example_encoders novel_record =
     (example_encoders_after, Inr [novel_vector])"
proof -
  have "map (column_value (set_column ''Agent Shift'' (PInt 1)
          (set_column ''channel_name'' (PInt 3) novel_record))) FEATURES = novel_vector"
    by (simp add: novel_record_def complete_record_def novel_vector_def FEATURES_def
        column_value_def)
  moreover have "df_values novel_vector = [novel_vector]"
    by (rule df_values_object) (simp add: novel_vector_def)
  ultimately show ?thesis
    by (simp add: preprocess_input_encode_columns encode_columns_example)
qed

lemma fitted_example_encoders: "fitted example_encoders"
  by (simp add: example_encoders_def fitted_def)

lemma distinct_example_encoders: "distinct (map fst example_encoders)"
  by (simp add: example_encoders_def)

lemma validate_input_complete_record: "validate_input complete_record = []"
proof -
  have "\<forall>f \<in> set FEATURES. has_key complete_record f"
    by (simp add: FEATURES_def complete_record_def has_key_def)
  moreover have "\<forall>f \<in> set numeric_features. \<not> not_numeric complete_record f"
    by (simp add: numeric_features_def complete_record_def not_numeric_def)
  ultimately show ?thesis
    by (simp add: validate_input_Nil_iff)
qed

lemma preprocess_input_no_encoders:
  "preprocess_input [] complete_record = ([], Inr [complete_vector])"
proof -
  have "map (column_value complete_record) FEATURES = complete_vector"
    by (simp add: complete_record_def complete_vector_def FEATURES_def column_value_def)
  moreover have "df_values complete_vector = [complete_vector]"
    by (rule df_values_object) (simp add: complete_vector_def)
  ultimately show ?thesis
    by (simp add: preprocess_input_encode_columns)
qed

lemma preprocess_input_extra_encoders:
  "preprocess_input extra_encoders complete_record = (extra_encoders, Inr [complete_vector])"
proof -
  have "encode_columns extra_encoders complete_record = (extra_encoders, Inr complete_record)"
    by (simp add: extra_encoders_def complete_record_def)
  moreover have "map (column_value complete_record) FEATURES = complete_vector"
    by (simp add: complete_record_def complete_vector_def FEATURES_def column_value_def)
  moreover have "df_values complete_vector = [complete_vector]"
    by (rule df_values_object) (simp add: complete_vector_def)
  ultimately show ?thesis
    by (simp add: preprocess_input_encode_columns)
qed


lemma py_repr_padded:
  "py_repr (''Email'' @ [CHR 0x00]) = [CHR 0x27] @ ''Email'' @ [CHR 0x5C] @ ''x00'' @ [CHR 0x27]"
  by (simp add: py_repr_def repr_char_def hex_digit_def Let_def)

lemma py_repr_padded_unknown:
  "py_repr (''Unknown'' @ [CHR 0x00]) =
     [CHR 0x27] @ ''Unknown'' @ [CHR 0x5C] @ ''x00'' @ [CHR 0x27]"
  by (simp add: py_repr_def repr_char_def hex_digit_def Let_def)

lemma preprocess_input_padded:
  "preprocess_input example_encoders padded_record =
     (example_encoders_after,
      Inl (ValueError (''Preprocessing failed: y contains previously unseen labels: '' @
             [CHR 0x27] @ ''Email'' @ [CHR 0x5C] @ ''x00'' @ [CHR 0x27])))"
proof -
  have "encode_columns example_encoders padded_record =
     (example_encoders_after,
      Inl (ValueError (''y contains previously unseen labels: '' @
             py_repr (''Email'' @ [CHR 0x00]))))"
    by (simp add: example_encoders_def example_encoders_after_def padded_record_def
        complete_record_def transform_def add_unknown_def strip_nul_def)
  with py_repr_padded show ?thesis
    by (simp add: preprocess_input_encode_columns)
qed

lemma preprocess_input_padded_unicode:
  "preprocess_input unicode_encoders padded_record =
     (unicode_encoders_after, Inr [padded_vector])"
proof -
  have "encode_columns unicode_encoders padded_record =
     (unicode_encoders_after, Inr (set_column ''channel_name'' (PInt 0) padded_record))"
    by (simp add: unicode_encoders_def unicode_encoders_after_def padded_record_def
        complete_record_def transform_def add_unknown_def strip_nul_def)
  moreover have "map (column_value (set_column ''channel_name'' (PInt 0) padded_record))
      FEATURES = padded_vector"
    by (simp add: padded_record_def complete_record_def padded_vector_def FEATURES_def
        column_value_def)
  moreover have "df_values padded_vector = [padded_vector]"
    by (rule df_values_object) (simp add: padded_vector_def)
  ultimately show ?thesis
    by (simp add: preprocess_input_encode_columns)
qed

lemma preprocess_input_padded_unknown_first:
  "preprocess_input example_encoders padded_unknown_record =
     (example_encoders_after, Inr [novel_vector])"
proof -
  have "encode_columns example_encoders padded_unknown_record =
     (example_encoders_after,
      Inr (set_column ''Agent Shift'' (PInt 1)
             (set_column ''channel_name'' (PInt 3) padded_unknown_record)))"
    by (simp add: example_encoders_def example_encoders_after_def padded_unknown_record_def
        complete_record_def transform_def add_unknown_def strip_nul_def)
  moreover have "map (column_value (set_column ''Agent Shift'' (PInt 1)
          (set_column ''channel_name'' (PInt 3) padded_unknown_record))) FEATURES =
      novel_vector"
    by (simp add: padded_unknown_record_def complete_record_def novel_vector_def FEATURES_def
        column_value_def)
  moreover have "df_values novel_vector = [novel_vector]"
    by (rule df_values_object) (simp add: novel_vector_def)
  ultimately show ?thesis
    by (simp add: preprocess_input_encode_columns)
qed

lemma preprocess_input_padded_unknown_second:
  "preprocess_input example_encoders_after padded_unknown_record =
     (example_encoders_after,
      Inl (ValueError (''Preprocessing failed: y contains previously unseen labels: '' @
             [CHR 0x27] @ ''Unknown'' @ [CHR 0x5C] @ ''x00'' @ [CHR 0x27])))"
proof -
  have "encode_columns example_encoders_after padded_unknown_record =
     (example_encoders_after,
      Inl (ValueError (''y contains previously unseen labels: '' @
             py_repr (''Unknown'' @ [CHR 0x00]))))"
    by (simp add: example_encoders_after_def padded_unknown_record_def
        complete_record_def transform_def add_unknown_def strip_nul_def)
  with py_repr_padded_unknown show ?thesis
    by (simp add: preprocess_input_encode_columns)
qed

section \<open>The feature encoder\<close>

text \<open>
  C2 describes what the comment \<open>Handle unseen labels gracefully\<close> intends, and the code
  misses it for a value that is a class followed by NUL characters. Such a value is
  none of the classes, yet \<open>x in le.classes_\<close> holds for it, so it is not replaced by
  \<open>''Unknown''\<close>. With classes of dtype \<open>object\<close> the lookup of \<open>transform\<close> then
  fails and \<open>preprocess_input\<close> raises, on a record that passes validation; with classes
  of a unicode dtype the entry is the code of the class, not that of \<open>''Unknown''\<close>.
\<close>

theorem preprocess_input_padded_class:
  "validate_input padded_record = [] \<and>
   map_of padded_record ''channel_name'' = Some (PStr (''Email'' @ [CHR 0x00])) \<and>
   ''Email'' @ [CHR 0x00] \<notin> set [''Email'', ''Inbound'', ''Outcall''] \<and>
   preprocess_input example_encoders padded_record =
     (example_encoders_after,
      Inl (ValueError (''Preprocessing failed: y contains previously unseen labels: '' @
             [CHR 0x27] @ ''Email'' @ [CHR 0x5C] @ ''x00'' @ [CHR 0x27]))) \<and>
   preprocess_input unicode_encoders padded_record =
     (unicode_encoders_after, Inr [padded_vector]) \<and>
   padded_vector ! 0 = PInt 0 \<and>
   transform [''Email'', ''Inbound'', ''Outcall'', ''Unknown''] ''Unknown'' = Inr 3"
proof -
  have "\<forall>f \<in> set FEATURES. has_key padded_record f"
    by (simp add: FEATURES_def padded_record_def complete_record_def has_key_def)
  moreover have "\<forall>f \<in> set numeric_features. \<not> not_numeric padded_record f"
    by (simp add: numeric_features_def padded_record_def complete_record_def not_numeric_def)
  ultimately have "validate_input padded_record = []"
    by (simp add: validate_input_Nil_iff)
  moreover have "map_of padded_record ''channel_name'' = Some (PStr (''Email'' @ [CHR 0x00]))"
    by (simp add: padded_record_def complete_record_def)
  moreover have "padded_vector ! 0 = PInt 0"
    by (simp add: padded_vector_def)
  moreover have "transform [''Email'', ''Inbound'', ''Outcall'', ''Unknown''] ''Unknown'' = Inr 3"
    by (simp add: transform_def)
  ultimately show ?thesis
    using preprocess_input_padded preprocess_input_padded_unicode by simp
qed

lemma map_of_same_entries:
  "distinct (map fst d1) \<Longrightarrow> distinct (map fst d2) \<Longrightarrow> set d1 = set d2 \<Longrightarrow>
   map_of d1 = map_of d2"
  by (simp add: map_of_inject_set)

lemma column_value_schema:
  assumes "distinct (map fst les)"
    and "encode_columns les data1 = (les1, Inr df1)"
    and "encode_columns les data2 = (les2, Inr df2)"
    and "map_of data1 f = map_of data2 f"
  shows "column_value df1 f = column_value df2 f"
proof (cases "map_of data1 f")
  case None
  with assms(4) have "\<not> has_key data1 f" "\<not> has_key data2 f"
    by (simp_all add: has_key_def)
  with has_key_encode_columns[OF assms(2), of f] has_key_encode_columns[OF assms(3), of f]
  show ?thesis
    by (simp add: column_value_def has_key_def)
next
  case (Some x)
  with assms(4) have x2: "map_of data2 f = Some x" by simp
  show ?thesis
  proof (cases "map_of les f")
    case None
    from encode_columns_no_encoder[OF assms(2) None]
      encode_columns_no_encoder[OF assms(3) None] assms(4)
    show ?thesis by (simp add: column_value_def)
  next
    case le: (Some le)
    from encode_columns_encoded[OF assms(2) assms(1) le Some]
    obtain cs code where a: "enc_classes le = Some cs"
      "transform (add_unknown cs) (as_classes_dtype (enc_dtype le) (handle_unseen cs x)) =
         Inr code"
      "map_of df1 f = Some (PInt code)"
      by blast
    from encode_columns_encoded[OF assms(3) assms(1) le x2]
    obtain cs' code' where b: "enc_classes le = Some cs'"
      "transform (add_unknown cs') (as_classes_dtype (enc_dtype le) (handle_unseen cs' x)) =
         Inr code'"
      "map_of df2 f = Some (PInt code')"
      by blast
    from a b have "code = code'" by simp
    with a b show ?thesis by (simp add: column_value_def)
  qed
qed

text \<open>
  C3: two records with the same entries in different orders give the same result; the
  array has one row with one entry per feature, the \<open>i\<close>-th being the cell of the \<open>i\<close>-th
  feature of the schema in the encoded frame, in the dtype of the array (\<open>channel_name\<close>
  first, \<open>Tenure Bucket\<close> last); and keys outside the schema do not reach the array: two
  records that agree on the features of the schema give the same array.
\<close>

theorem preprocess_input_schema_order:
  "(distinct (map fst data1) \<and> distinct (map fst data2) \<and> set data1 = set data2 \<longrightarrow>
      preprocess_input les data1 = preprocess_input les data2) \<and>
   (\<forall>les1 processed1. preprocess_input les data1 = (les1, Inr processed1) \<longrightarrow>
      (\<exists>df1 row1. encode_columns les data1 = (les1, Inr df1) \<and>
         processed1 = [row1] \<and> length row1 = length FEATURES \<and>
         (\<forall>i < length FEATURES.
            row1 ! i =
              astype (find_common_type (map dtype_of (map (column_value df1) FEATURES)))
                (column_value df1 (FEATURES ! i)))) \<and>
      (\<forall>les2 processed2.
         distinct (map fst les) \<and> (\<forall>f \<in> set FEATURES. map_of data1 f = map_of data2 f) \<and>
         preprocess_input les data2 = (les2, Inr processed2) \<longrightarrow> processed2 = processed1)) \<and>
   hd FEATURES = ''channel_name'' \<and> last FEATURES = ''Tenure Bucket''"
proof -
  have order: "preprocess_input les data1 = preprocess_input les data2"
    if "distinct (map fst data1)" "distinct (map fst data2)" "set data1 = set data2"
    using that by (intro preprocess_input_cong map_of_same_entries)
  have shape: "\<exists>df1 row1. encode_columns les data1 = (les1, Inr df1) \<and>
         processed1 = [row1] \<and> length row1 = length FEATURES \<and>
         (\<forall>i < length FEATURES.
            row1 ! i =
              astype (find_common_type (map dtype_of (map (column_value df1) FEATURES)))
                (column_value df1 (FEATURES ! i)))"
    if "preprocess_input les data1 = (les1, Inr processed1)" for les1 processed1
  proof -
    from that obtain df1 where e1: "encode_columns les data1 = (les1, Inr df1)"
      and p1: "processed1 = df_values (map (column_value df1) FEATURES)"
      by (auto simp: preprocess_input_Inr)
    let ?dtype = "find_common_type (map dtype_of (map (column_value df1) FEATURES))"
    let ?row = "map (astype ?dtype) (map (column_value df1) FEATURES)"
    have "processed1 = [?row]"
      using p1 by (simp only: df_values_row)
    moreover have "length ?row = length FEATURES"
      by simp
    moreover have "\<forall>i < length FEATURES.
        ?row ! i = astype ?dtype (column_value df1 (FEATURES ! i))"
      by simp
    ultimately show ?thesis
      using e1 by blast
  qed
  have dropped: "processed2 = processed1"
    if p1: "preprocess_input les data1 = (les1, Inr processed1)"
      and dist: "distinct (map fst les)"
      and same: "\<forall>f \<in> set FEATURES. map_of data1 f = map_of data2 f"
      and p2: "preprocess_input les data2 = (les2, Inr processed2)"
    for les1 processed1 les2 processed2
  proof -
    from p1 obtain df1 where e1: "encode_columns les data1 = (les1, Inr df1)"
      and v1: "processed1 = df_values (map (column_value df1) FEATURES)"
      by (auto simp: preprocess_input_Inr)
    from p2 obtain df2 where e2: "encode_columns les data2 = (les2, Inr df2)"
      and v2: "processed2 = df_values (map (column_value df2) FEATURES)"
      by (auto simp: preprocess_input_Inr)
    have "column_value df1 f = column_value df2 f" if "f \<in> set FEATURES" for f
      using column_value_schema[OF dist e1 e2] same that by blast
    then have "map (column_value df1) FEATURES = map (column_value df2) FEATURES"
      by simp
    with v1 v2 show ?thesis by simp
  qed
  have ends: "hd FEATURES = ''channel_name'' \<and> last FEATURES = ''Tenure Bucket''"
    by (simp add: FEATURES_def)
  from order shape dropped ends show ?thesis
    by blast
qed

theorem preprocess_input_schema_order_witness:
  "preprocess_input example_encoders (rev novel_record) =
     (example_encoders_after, Inr [novel_vector]) \<and>
   length novel_vector = length FEATURES \<and>
   (\<exists>les2. preprocess_input example_encoders tagged_record = (les2, Inr [novel_vector]))"
proof -
  note perm = preprocess_input_schema_order[of novel_record "rev novel_record" example_encoders]
  note drop = preprocess_input_schema_order[of novel_record tagged_record example_encoders]
  have 1: "distinct (map fst novel_record)"
    by (simp add: novel_record_def complete_record_def)
  then have 2: "distinct (map fst (rev novel_record))"
    by (simp add: rev_map[symmetric])
  have 3: "set novel_record = set (rev novel_record)"
    by simp
  have "preprocess_input example_encoders novel_record =
      preprocess_input example_encoders (rev novel_record)"
    using perm[THEN conjunct1] 1 2 3 by blast
  then have a: "preprocess_input example_encoders (rev novel_record) =
      (example_encoders_after, Inr [novel_vector])"
    by (simp add: preprocess_input_example)
  from drop[THEN conjunct2, THEN conjunct1] preprocess_input_example
  obtain row1 where "[novel_vector] = [row1]" "length row1 = length FEATURES"
    by blast
  then have b: "length novel_vector = length FEATURES"
    by simp
  have 4: "\<forall>f \<in> set FEATURES. map_of novel_record f = map_of tagged_record f"
    by (simp add: FEATURES_def tagged_record_def novel_record_def complete_record_def)
  have "plain_record tagged_record"
    by (simp add: plain_record_def tagged_record_def novel_record_def complete_record_def
        strip_nul_def)
  then obtain les2 processed2 where
    5: "preprocess_input example_encoders tagged_record = (les2, Inr processed2)"
    using preprocess_input_returns[OF fitted_example_encoders] by blast
  have "processed2 = [novel_vector]"
    using drop[THEN conjunct2, THEN conjunct1] preprocess_input_example
      distinct_example_encoders 4 5
    by blast
  with 5 a b show ?thesis by blast
qed

text \<open>
  C4 fails on the code by the defect of C2. The value \<open>Unknown\<close> followed by a NUL
  character is unseen on the first call, which adds \<open>''Unknown''\<close> to the classes and
  returns an array; on the second call \<open>x in le.classes_\<close> holds for it, the value is
  kept, and with classes of dtype \<open>object\<close> the lookup fails and the call raises.
\<close>

theorem preprocess_input_second_call_raises:
  "validate_input padded_unknown_record = [] \<and>
   preprocess_input example_encoders padded_unknown_record =
     (example_encoders_after, Inr [novel_vector]) \<and>
   preprocess_input example_encoders_after padded_unknown_record =
     (example_encoders_after,
      Inl (ValueError (''Preprocessing failed: y contains previously unseen labels: '' @
             [CHR 0x27] @ ''Unknown'' @ [CHR 0x5C] @ ''x00'' @ [CHR 0x27])))"
proof -
  have "\<forall>f \<in> set FEATURES. has_key padded_unknown_record f"
    by (simp add: FEATURES_def padded_unknown_record_def complete_record_def has_key_def)
  moreover have "\<forall>f \<in> set numeric_features. \<not> not_numeric padded_unknown_record f"
    by (simp add: numeric_features_def padded_unknown_record_def complete_record_def
        not_numeric_def)
  ultimately have "validate_input padded_unknown_record = []"
    by (simp add: validate_input_Nil_iff)
  then show ?thesis
    using preprocess_input_padded_unknown_first preprocess_input_padded_unknown_second
    by simp
qed




lemma predict_validated:
  "is_json req \<Longrightarrow> validate_input (json req) = [] \<Longrightarrow>
   predict py model les now req =
     (case preprocess_input les (json req) of
        (les', Inl e) \<Rightarrow> (les', predict_except e)
      | (les', Inr processed) \<Rightarrow>
          (case model_response py model now processed of
             Inl e \<Rightarrow> (les', predict_except e)
           | Inr answer \<Rightarrow> (les', (answer, 200))))"
  by (simp add: predict_def)

text \<open>
  C7: when the body of \<open>preprocess_input\<close> raises an exception, \<open>preprocess_input\<close> raises
  one \<open>ValueError\<close> whose text is \<open>Preprocessing failed:\<close> followed by the text of the
  cause, and \<open>predict\<close> answers a validated JSON request with status 400 and that text;
  no other exception leaves \<open>preprocess_input\<close>.
\<close>

theorem preprocess_input_failure:
  "(\<forall>les' cause. preprocess_body les data = (les', Inl cause) \<longrightarrow>
      preprocess_input les data =
        (les', Inl (ValueError (''Preprocessing failed: '' @ exn_str cause))) \<and>
      (\<forall>py model now req. is_json req \<and> json req = data \<and> validate_input data = [] \<longrightarrow>
         predict py model les now req =
           (les', (ErrorBody (''Preprocessing failed: '' @ exn_str cause), 400)))) \<and>
   (\<forall>les' e. preprocess_input les data = (les', Inl e) \<longrightarrow>
      (\<exists>cause. preprocess_body les data = (les', Inl cause) \<and>
         e = ValueError (''Preprocessing failed: '' @ exn_str cause)))"
proof -
  have a: "preprocess_input les data =
        (les', Inl (ValueError (''Preprocessing failed: '' @ exn_str cause)))"
    if "preprocess_body les data = (les', Inl cause)" for les' cause
    using that by (simp add: preprocess_input_def)
  have b: "predict py model les now req =
           (les', (ErrorBody (''Preprocessing failed: '' @ exn_str cause), 400))"
    if "preprocess_body les data = (les', Inl cause)" "is_json req" "json req = data"
      "validate_input data = []" for les' cause py model now req
    using that a[OF that(1)] by (simp add: predict_validated)
  have c: "\<exists>cause. preprocess_body les data = (les', Inl cause) \<and>
         e = ValueError (''Preprocessing failed: '' @ exn_str cause)"
    if "preprocess_input les data = (les', Inl e)" for les' e
    using that by (auto simp: preprocess_input_def split: prod.splits sum.splits)
  from a b c show ?thesis by blast
qed

lemma preprocess_body_unfitted:
  "preprocess_body unfitted_encoders complete_record =
     (unfitted_encoders, Inl (AttributeError no_classes_message))"
  by (simp add: preprocess_body_def unfitted_encoders_def complete_record_def)

theorem preprocess_input_failure_witness:
  "preprocess_body unfitted_encoders complete_record =
     (unfitted_encoders, Inl (AttributeError no_classes_message)) \<and>
   preprocess_input unfitted_encoders complete_record =
     (unfitted_encoders, Inl (ValueError (''Preprocessing failed: '' @ no_classes_message))) \<and>
   predict example_builtins working_model unfitted_encoders ''2024-05-01T10:00:00''
       (json_request complete_record) =
     (unfitted_encoders, (ErrorBody (''Preprocessing failed: '' @ no_classes_message), 400))"
proof -
  note failure = preprocess_input_failure[of unfitted_encoders complete_record, THEN conjunct1]
  have 1: "is_json (json_request complete_record)"
    "json (json_request complete_record) = complete_record"
    by (simp_all add: json_request_def)
  from failure preprocess_body_unfitted 1 validate_input_complete_record
  have "preprocess_input unfitted_encoders complete_record =
     (unfitted_encoders, Inl (ValueError (''Preprocessing failed: '' @
        exn_str (AttributeError no_classes_message))))"
    and "predict example_builtins working_model unfitted_encoders ''2024-05-01T10:00:00''
        (json_request complete_record) =
     (unfitted_encoders, (ErrorBody (''Preprocessing failed: '' @
        exn_str (AttributeError no_classes_message)), 400))"
    by blast+
  with preprocess_body_unfitted show ?thesis by simp
qed

section \<open>The orchestrator\<close>

lemma predict_example:
  "predict example_builtins working_model [] ''2024-05-01T10:00:00''
       (json_request complete_record) =
     ([], (PredictionBody 1 0.75 ''High CSAT'' ''2024-05-01T10:00:00'', 200))"
proof -
  have "is_json (json_request complete_record)"
    "validate_input (json (json_request complete_record)) = []"
    "preprocess_input [] (json (json_request complete_record)) = ([], Inr [complete_vector])"
    by (simp_all add: json_request_def validate_input_complete_record
        preprocess_input_no_encoders)
  then show ?thesis
    by (simp add: predict_validated model_response_def working_model_def)
qed

text \<open>
  C8, as stated, fails: a \<open>ValueError\<close> raised by the classifier on a request that passed
  validation and preprocessing is answered with status 400 and the text of the
  exception, by the first \<open>except\<close> clause of \<open>predict\<close>.
\<close>

theorem predict_value_error_counterexample:
  "is_json (json_request complete_record) \<and>
   validate_input (json (json_request complete_record)) = [] \<and>
   preprocess_input [] (json (json_request complete_record)) = ([], Inr [complete_vector]) \<and>
   model_predict value_error_model [complete_vector] =
     Inl (ValueError ''could not convert string to float'') \<and>
   predict example_builtins value_error_model [] ''2024-05-01T10:00:00''
       (json_request complete_record) =
     ([], (ErrorBody ''could not convert string to float'', 400))"
proof -
  have 1: "is_json (json_request complete_record)"
    "json (json_request complete_record) = complete_record"
    by (simp_all add: json_request_def)
  have 2: "model_predict value_error_model [complete_vector] =
     Inl (ValueError ''could not convert string to float'')"
    by (simp add: value_error_model_def)
  have "predict example_builtins value_error_model [] ''2024-05-01T10:00:00''
      (json_request complete_record) =
     ([], (ErrorBody ''could not convert string to float'', 400))"
    using 1 2 validate_input_complete_record preprocess_input_no_encoders
    by (simp add: predict_validated model_response_def)
  with 1 2 validate_input_complete_record preprocess_input_no_encoders show ?thesis
    by simp
qed

text \<open>
  C8, amended: for a request that passed validation and preprocessing, an exception
  other than a \<open>ValueError\<close> raised during model invocation (\<open>predict\<close>, \<open>predict_proba\<close>)
  or response assembly (the log line, \<open>int(pred)\<close>, \<open>float(pred_prob)\<close>) is answered with
  status 500 and the text \<open>Internal server error\<close>, which holds nothing of the exception.
  The second part of the statement lists the steps at which \<open>model_response\<close> raises.
\<close>

theorem predict_internal_error:
  "(is_json req \<and> validate_input (json req) = [] \<and>
    preprocess_input les (json req) = (les', Inr processed) \<and>
    model_response py model now processed = Inl e \<and> (\<forall>m. e \<noteq> ValueError m) \<longrightarrow>
      predict py model les now req = (les', (ErrorBody ''Internal server error'', 500))) \<and>
   (model_response py model now processed = Inl e \<longleftrightarrow>
      model_predict model processed = Inl e \<or>
      (\<exists>pred. model_predict model processed = Inr pred \<and>
         (model_predict_proba model processed = Inl e \<or>
          (\<exists>pred_prob. model_predict_proba model processed = Inr pred_prob \<and>
             (format_2f pred_prob = Inl e \<or>
              (format_2f pred_prob = Inr () \<and>
                 (py_int py pred = Inl e \<or>
                  (\<exists>prediction. py_int py pred = Inr prediction \<and>
                     py_float py pred_prob = Inl e))))))))"
proof -
  have handled: "predict py model les now req =
      (les', (ErrorBody ''Internal server error'', 500))"
    if "is_json req" "validate_input (json req) = []"
      "preprocess_input les (json req) = (les', Inr processed)"
      "model_response py model now processed = Inl e" "\<forall>m. e \<noteq> ValueError m"
  proof -
    from that(5) have "predict_except e = (ErrorBody ''Internal server error'', 500)"
      by (cases e) simp_all
    with that(1-4) show ?thesis
      by (simp add: predict_validated)
  qed
  have steps: "model_response py model now processed = Inl e \<longleftrightarrow>
      model_predict model processed = Inl e \<or>
      (\<exists>pred. model_predict model processed = Inr pred \<and>
         (model_predict_proba model processed = Inl e \<or>
          (\<exists>pred_prob. model_predict_proba model processed = Inr pred_prob \<and>
             (format_2f pred_prob = Inl e \<or>
              (format_2f pred_prob = Inr () \<and>
                 (py_int py pred = Inl e \<or>
                  (\<exists>prediction. py_int py pred = Inr prediction \<and>
                     py_float py pred_prob = Inl e)))))))"
    by (auto simp: model_response_def split: sum.splits)
  from handled steps show ?thesis
    by blast
qed

theorem predict_internal_error_witness:
  "model_response example_builtins broken_model ''2024-05-01T10:00:00'' [complete_vector] =
     Inl (OtherException ''index 1 is out of bounds'') \<and>
   predict example_builtins broken_model [] ''2024-05-01T10:00:00''
       (json_request complete_record) =
     ([], (ErrorBody ''Internal server error'', 500)) \<and>
   py_int example_builtins PNone =
     Inl (TypeError (''int() argument must be a string, a bytes-like object or a real '' @
        ''number, not '' @ [CHR 0x27] @ ''NoneType'' @ [CHR 0x27])) \<and>
   predict example_builtins none_model [] ''2024-05-01T10:00:00''
       (json_request complete_record) =
     ([], (ErrorBody ''Internal server error'', 500))"
proof -
  let ?now = "''2024-05-01T10:00:00''"
  let ?type_error = "TypeError (''int() argument must be a string, a bytes-like object or a real '' @
        ''number, not '' @ [CHR 0x27] @ ''NoneType'' @ [CHR 0x27])"
  have 1: "is_json (json_request complete_record)"
    by (simp add: json_request_def)
  have 2: "validate_input (json (json_request complete_record)) = []"
    by (simp add: json_request_def validate_input_complete_record)
  have 3: "preprocess_input [] (json (json_request complete_record)) =
      ([], Inr [complete_vector])"
    by (simp add: json_request_def preprocess_input_no_encoders)
  have 4: "model_response example_builtins broken_model ?now [complete_vector] =
      Inl (OtherException ''index 1 is out of bounds'')"
    by (simp add: model_response_def broken_model_def)
  have 5: "\<forall>m. OtherException ''index 1 is out of bounds'' \<noteq> ValueError m"
    by simp
  have 6: "model_response example_builtins none_model ?now [complete_vector] = Inl ?type_error"
    by (simp add: model_response_def none_model_def)
  have 7: "\<forall>m. ?type_error \<noteq> ValueError m"
    by simp
  have 8: "py_int example_builtins PNone = Inl ?type_error"
    by simp
  have "predict example_builtins broken_model [] ?now (json_request complete_record) =
     ([], (ErrorBody ''Internal server error'', 500))"
    using predict_internal_error[of "json_request complete_record" "[]" "[]"
        "[complete_vector]" example_builtins broken_model ?now
        "OtherException ''index 1 is out of bounds''", THEN conjunct1] 1 2 3 4 5
    by blast
  moreover have
    "predict example_builtins none_model [] ?now (json_request complete_record) =
     ([], (ErrorBody ''Internal server error'', 500))"
    using predict_internal_error[of "json_request complete_record" "[]" "[]"
        "[complete_vector]" example_builtins none_model ?now ?type_error, THEN conjunct1]
      1 2 3 6 7
    by blast
  ultimately show ?thesis
    using 4 8 by blast
qed

section \<open>The encoder state\<close>

text \<open>
  C9, as stated, fails: an encoder whose column is not a key of the record is left as it
  is, although \<open>''Unknown''\<close> is not among its classes; the guard \<open>if col in df.columns\<close>
  skips it.
\<close>

theorem preprocess_input_absent_column_counterexample:
  "validate_input complete_record = [] \<and>
   map_of extra_encoders ''Product_category'' =
     Some \<lparr>enc_classes = Some [''Electronics''], enc_dtype = ObjectDtype\<rparr> \<and>
   ''Unknown'' \<notin> set [''Electronics''] \<and>
   preprocess_input extra_encoders complete_record = (extra_encoders, Inr [complete_vector])"
  using validate_input_complete_record preprocess_input_extra_encoders
  by (simp add: extra_encoders_def)

text \<open>
  C9, amended: a call of \<open>preprocess_input\<close> leaves every encoder either as it was or
  with \<open>''Unknown''\<close>, which was not a class, added once after its last class. When the
  call returns an array, the encoders whose column is a key of the record have passed
  through \<open>add_unknown\<close> (unchanged when \<open>''Unknown''\<close> was a class, added at the end
  otherwise) and the others are as they were. Adding \<open>''Unknown''\<close> keeps the classes
  that were there, their order and their codes.
\<close>

theorem preprocess_input_append_only_state:
  assumes "preprocess_input les data = (les', r)"
  shows "list_all2 append_only les les' \<and>
         (\<forall>vec. r = Inr vec \<longrightarrow> les' = map (after_call data) les) \<and>
         (\<forall>cs. add_unknown cs =
            (if ''Unknown'' \<in> set cs then cs else cs @ [''Unknown'']) \<and>
            take (length cs) (add_unknown cs) = cs \<and>
            (\<forall>s \<in> set cs. transform (add_unknown cs) s = transform cs s))"
proof -
  have "les' = map (after_call data) les" if "r = Inr vec" for vec
  proof -
    from assms that obtain df' where "encode_columns les data = (les', Inr df')"
      by (auto simp: preprocess_input_Inr)
    then show ?thesis by (rule encode_columns_state)
  qed
  moreover have "add_unknown cs = (if ''Unknown'' \<in> set cs then cs else cs @ [''Unknown''])"
    for cs
    by (simp add: add_unknown_def)
  ultimately show ?thesis
    using preprocess_input_append_only[OF assms] take_add_unknown transform_append_unknown
    by blast
qed

theorem preprocess_input_append_only_state_witness:
  "list_all2 append_only example_encoders example_encoders_after \<and>
   example_encoders_after = map (after_call novel_record) example_encoders \<and>
   transform [''Email'', ''Inbound'', ''Outcall'', ''Unknown''] ''Inbound'' =
     transform [''Email'', ''Inbound'', ''Outcall''] ''Inbound''"
proof -
  note state = preprocess_input_append_only_state[OF preprocess_input_example]
  have 1: "add_unknown [''Email'', ''Inbound'', ''Outcall''] =
      [''Email'', ''Inbound'', ''Outcall'', ''Unknown'']"
    by (simp add: add_unknown_def)
  have 2: "''Inbound'' \<in> set [''Email'', ''Inbound'', ''Outcall'']"
    by simp
  from state[THEN conjunct2, THEN conjunct2]
  have "\<forall>s \<in> set [''Email'', ''Inbound'', ''Outcall''].
      transform (add_unknown [''Email'', ''Inbound'', ''Outcall'']) s =
      transform [''Email'', ''Inbound'', ''Outcall''] s"
    by blast
  from bspec[OF this 2]
  have 3: "transform [''Email'', ''Inbound'', ''Outcall'', ''Unknown''] ''Inbound'' =
     transform [''Email'', ''Inbound'', ''Outcall''] ''Inbound''"
    unfolding 1 .
  from state[THEN conjunct1] state[THEN conjunct2, THEN conjunct1] 3 show ?thesis
    by blast
qed

end
